theory Spec2Isabelle
  imports Main "HOL-Library.Word" "HOL-Library.Monad_Syntax" "HOL-Library.Sublist"
begin

section \<open>Common types (common.h)\<close>

text \<open>
  The enumerations and the result structure every operation of the library returns.
  \<open>FunctionResult\<close> keeps its three fields; its two C++ constructors only copy their
  arguments into them, so the record constructor stands for both.
\<close>

datatype API = DIRECTX | OPENGL | VULKAN | NONE

datatype RESULT = FAIL | WSUCCESS | SSUCCESS

record FunctionResult =
  is_successfull :: bool
  result :: RESULT
  message :: string

definition mkResult :: "bool \<Rightarrow> RESULT \<Rightarrow> string \<Rightarrow> FunctionResult" where
  "mkResult p_is_successfull p_result p_message =
     \<lparr>is_successfull = p_is_successfull, result = p_result, message = p_message\<rparr>"

record GraphicsConfig =
  GraphicsAPI :: API

text \<open>
  The three list element types have a constructor each and clash on the field name
  \<open>index\<close>, so they are datatypes whose constructor takes the C++ constructor's
  arguments in order. A C++ \<open>int\<close> that is only stored and printed is an \<open>int\<close>
  holding the value of the 32-bit pattern; \<open>unsigned int\<close> is a \<open>32 word\<close>.
\<close>

datatype GraphicsAdapter = GraphicsAdapter int string

datatype GraphicsOutput = GraphicsOutput int string

datatype DisplayMode = DisplayMode int "32 word" "32 word" "32 word"

type_synonym GraphicsAdapterList = "GraphicsAdapter list"
type_synonym GraphicsOutputList = "GraphicsOutput list"
type_synonym DisplayModeList = "DisplayMode list"

section \<open>Strings (the std::string operations the sources use)\<close>

text \<open>
  \<open>std::string::find\<close> returns the first position at which the pattern starts, or
  \<open>npos\<close>; \<open>None\<close> stands for \<open>npos\<close>.
\<close>

fun find_from :: "string \<Rightarrow> string \<Rightarrow> nat \<Rightarrow> nat option" where
  "find_from pat [] n = (if pat = [] then Some n else None)"
| "find_from pat (c # cs) n =
     (if take (length pat) (c # cs) = pat then Some n else find_from pat cs (Suc n))"

definition find_str :: "string \<Rightarrow> string \<Rightarrow> nat option" where
  "find_str s pat = find_from pat s 0"

text \<open>
  \<open>line.substr(line.find(":") + 1)\<close>: \<open>npos\<close> is the largest \<open>size_t\<close>, so
  \<open>npos + 1\<close> wraps to 0 and a line with no colon is taken whole. The start position
  never exceeds the length, so \<open>substr\<close> does not throw.
\<close>

definition substr_after_colon :: "string \<Rightarrow> string" where
  "substr_after_colon line =
     (let pos = (case find_str line '':'' of None \<Rightarrow> 0 | Some p \<Rightarrow> p + 1)
      in drop pos line)"

text \<open>\<open>isspace\<close> in the "C" locale: space, and the five controls from tab to carriage return.\<close>

definition isspace :: "char \<Rightarrow> bool" where
  "isspace c = (c = CHR '' '' \<or> c = CHR 0x09 \<or> c = CHR 0x0A \<or> c = CHR 0x0B
                \<or> c = CHR 0x0C \<or> c = CHR 0x0D)"

text \<open>
  \<open>sin >> api_check\<close> on a fresh \<open>istringstream\<close>: leading white space is skipped and
  the characters up to the next white space are stored. When nothing is left the
  extraction fails and the string stays empty.
\<close>

definition extract_word :: "string \<Rightarrow> string" where
  "extract_word s = takeWhile (\<lambda>c. \<not> isspace c) (dropWhile isspace s)"

text \<open>\<open>std::to_string(int)\<close>: decimal digits, with a minus sign for a negative value.\<close>

fun digits :: "nat \<Rightarrow> string" where
  "digits n =
     (if n < 10 then [''0123456789'' ! n]
      else digits (n div 10) @ [''0123456789'' ! (n mod 10)])"

declare digits.simps [simp del]

definition to_string :: "int \<Rightarrow> string" where
  "to_string i = (if i < 0 then CHR ''-'' # digits (nat (- i)) else digits (nat i))"

section \<open>The configuration file (SyrenRender::loadConfig)\<close>

text \<open>
  What opening \<open>render.cfg\<close> gives: the lines \<open>getline\<close> would deliver when the file
  opens (\<open>None\<close> when it does not), and for the failure message the stream's two
  state bits and the text \<open>strerror_s\<close> produces for \<open>errno\<close>.
\<close>

record cfg_file =
  lines_of :: "string list option"
  badbit :: bool
  failbit :: bool
  strerror :: string

text \<open>
  The body of the \<open>while (getline(fconfig, line))\<close> loop. \<open>config\<close> is a reference
  parameter: the assignments of earlier lines stay when a later line makes the function
  return early. The first component is the early return, if any.
\<close>

fun loadConfig_lines :: "string list \<Rightarrow> GraphicsConfig \<Rightarrow> FunctionResult option \<times> GraphicsConfig" where
  "loadConfig_lines [] config = (None, config)"
| "loadConfig_lines (line # rest) config =
     (let sin = substr_after_colon line in
      if find_str line ''api'' \<noteq> None then
        (let api_check = extract_word sin in
         if api_check = ''directx'' then loadConfig_lines rest (config\<lparr>GraphicsAPI := DIRECTX\<rparr>)
         else if api_check = ''opengl'' then loadConfig_lines rest (config\<lparr>GraphicsAPI := OPENGL\<rparr>)
         else if api_check = ''vulkan'' then loadConfig_lines rest (config\<lparr>GraphicsAPI := VULKAN\<rparr>)
         else (Some (mkResult False FAIL ''invalid graphics API entry in render.config.''), config))
      else loadConfig_lines rest config)"

definition loadConfig :: "cfg_file \<Rightarrow> GraphicsConfig \<Rightarrow> FunctionResult \<times> GraphicsConfig" where
  "loadConfig fconfig config =
     (case lines_of fconfig of
        Some ls \<Rightarrow>
          (case loadConfig_lines ls config of
             (Some r, config') \<Rightarrow> (r, config')
           | (None, config') \<Rightarrow>
               if GraphicsAPI config' = NONE
               then (mkResult True WSUCCESS ''missing graphics API entry in render.config.'', config')
               else (mkResult True SSUCCESS ''config file loaded successfully.'', config'))
      | None \<Rightarrow>
          (let message = ''Error opening file: render.cfg'';
               message = (if badbit fconfig
                          then message @ [CHR 0x0A] @ ''Fatal error : badbit is set.'' else message);
               message = (if failbit fconfig
                          then message @ [CHR 0x0A] @ ''Error details: '' @ strerror fconfig else message)
           in (mkResult False FAIL message, config)))"

section \<open>The native driver, seen from the library\<close>

text \<open>
  The library is a sequence of calls into DXGI, Direct3D 12 and a few Win32 functions.
  None of that code belongs to the repository, so the model takes it as a parameter:
  a \<open>driver\<close> answers every call, and the answer may depend on all calls the instance
  has made before (the field \<open>calls\<close> of the instance records them in order).
  An \<open>HRESULT\<close> is a 32-bit signed value and \<open>FAILED\<close> tests its sign.
\<close>

type_synonym HRESULT = "32 word"

definition FAILED :: "HRESULT \<Rightarrow> bool" where
  "FAILED hr = (sint hr < 0)"

definition S_OK :: HRESULT where
  "S_OK = 0"

definition E_FAIL :: HRESULT where
  "E_FAIL = 0x80004005"

definition DXGI_ERROR_NOT_FOUND :: HRESULT where
  "DXGI_ERROR_NOT_FOUND = 0x887A0002"

datatype heap_type = RTV | DSV | CBV_SRV_UAV

datatype resource = BackBuffer int | DepthStencilBuffer

datatype native_call =
    CreateDXGIFactory1
  | EnumAdapterByGpuPreference "32 word"
  | EnumWarpAdapter
  | Adapter_Release
  | Adapter_GetDesc
  | EnumOutputs "32 word"
  | Output_GetDesc
  | GetDisplayModeList
  | Factory_Release
  | D3D12CreateDevice
  | CreateFence
  | GetDescriptorHandleIncrementSize heap_type
  | CheckFeatureSupport
  | CreateCommandQueue
  | CreateCommandAllocator
  | CreateCommandList
  | CreateSwapChain int int int int
  | CreateDescriptorHeap heap_type
  | Signal "64 word"
  | GetCompletedValue
  | CreateEventEx
  | SetEventOnCompletion "64 word"
  | WaitForSingleObject
  | CloseHandle
  | CommandAllocator_Reset
  | CommandList_Reset
  | CommandList_Close
  | ResourceBarrier resource
  | RSSetViewports
  | RSSetScissorRects
  | ClearRenderTargetView int
  | ClearDepthStencilView
  | OMSetRenderTargets int
  | ExecuteCommandLists
  | Present
  | ResizeBuffers int int
  | GetBuffer "32 word"
  | CreateRenderTargetView "32 word"
  | CreateCommittedResource
  | CreateDepthStencilView

record DXGI_MODE_DESC =
  Width :: "32 word"
  Height :: "32 word"
  Numerator :: "32 word"
  Denominator :: "32 word"

text \<open>
  \<open>hresult_of\<close> is the value a call returns; \<open>out_ptr\<close> tells whether the call
  leaves a usable interface pointer in its out-parameter; the other fields are the data
  a call writes back: the fence's completed value, the descriptor increment sizes, the
  number of quality levels, the wide-character name \<open>GetDesc\<close> fills in, the count and
  the entries \<open>GetDisplayModeList\<close> reports, and the text \<open>_com_error\<close> gives for an
  \<open>HRESULT\<close>. \<open>wait_returns h\<close> tells whether the \<open>WaitForSingleObject\<close> that ends the
  history \<open>h\<close> returns: its timeout is \<open>INFINITE\<close>.
\<close>

record driver =
  hresult_of :: "native_call list \<Rightarrow> native_call \<Rightarrow> HRESULT"
  out_ptr :: "native_call list \<Rightarrow> native_call \<Rightarrow> bool"
  completed_value :: "native_call list \<Rightarrow> 64 word"
  wait_returns :: "native_call list \<Rightarrow> bool"
  increment_size :: "heap_type \<Rightarrow> 32 word"
  quality_levels :: "native_call list \<Rightarrow> 32 word"
  description :: "native_call list \<Rightarrow> 16 word list"
  mode_count :: "native_call list \<Rightarrow> 32 word"
  mode_list :: "native_call list \<Rightarrow> DXGI_MODE_DESC list"
  ErrorMessage :: "HRESULT \<Rightarrow> 16 word list"

text \<open>
  \<open>std::string(w.begin(), w.end())\<close> on a wide string converts every \<open>wchar_t\<close> to a
  \<open>char\<close>, which keeps the low eight bits.
\<close>

definition narrow :: "16 word list \<Rightarrow> string" where
  "narrow w = map (\<lambda>c. char_of (unat c)) w"

section \<open>The DirectX backend (DirectX.h, DirectX.cpp)\<close>

datatype DXGI_FORMAT =
    DXGI_FORMAT_R8G8B8A8_UNORM
  | DXGI_FORMAT_D24_UNORM_S8_UINT

datatype D3D_DRIVER_TYPE = D3D_DRIVER_TYPE_UNKNOWN | D3D_DRIVER_TYPE_HARDWARE

text \<open>
  The members of the class. A \<open>ComPtr\<close> member is the flag "holds an interface"
  (\<open>False\<close> is the null pointer): the model follows which pointers the code goes through,
  not the objects behind them. \<open>mCurrentFence\<close> is a \<open>UINT64\<close>, \<open>mCurrBackBuffer\<close> an
  \<open>int\<close>. The viewport and the scissor rectangle have no initialiser and are written by
  \<open>onResize\<close> only; \<open>None\<close> is "not written yet", and the viewport keeps the four
  integers it is cast from (its depth range is the constant 0 to 1). \<open>calls\<close> is the
  history of native calls made through this instance.
\<close>

record DirectX =
  mhMainWnd :: nat
  mClientWidth :: int
  mClientHeight :: int
  mBackBufferFormat :: DXGI_FORMAT
  mDepthStencilFormat :: DXGI_FORMAT
  md3dDriverType :: D3D_DRIVER_TYPE
  mCurrentFence :: "64 word"
  m4xMsaaState :: bool
  m4xMsaaQuality :: "32 word"
  mCurrBackBuffer :: int
  mFactory :: bool
  md3dDevice :: bool
  mFence :: bool
  mSwapChain :: bool
  mCommandQueue :: bool
  mDirectCmdListAlloc :: bool
  mCommandList :: bool
  mSwapChainBuffer :: "bool list"
  mDepthStencilBuffer :: bool
  mRtvHeap :: bool
  mDsvHeap :: bool
  mScreenViewport :: "(int \<times> int \<times> int \<times> int) option"
  mScissorRect :: "(int \<times> int \<times> int \<times> int) option"
  mRtvDescriptorSize :: "32 word"
  mDsvDescriptorSize :: "32 word"
  mCbvSrvDescriptorSize :: "32 word"
  calls :: "native_call list"

definition SwapChainBufferCount :: int where
  "SwapChainBufferCount = 2"

text \<open>
  The constructor, with the default member initialisers of the header. A default
  \<open>ComPtr\<close> is null; the members the constructor assigns are assigned here.
\<close>

definition DirectX_new :: "nat \<Rightarrow> DirectX" where
  "DirectX_new phMainWnd =
     \<lparr>mhMainWnd = phMainWnd,
      mClientWidth = 800,
      mClientHeight = 600,
      mBackBufferFormat = DXGI_FORMAT_R8G8B8A8_UNORM,
      mDepthStencilFormat = DXGI_FORMAT_D24_UNORM_S8_UINT,
      md3dDriverType = D3D_DRIVER_TYPE_HARDWARE,
      mCurrentFence = 0,
      m4xMsaaState = False,
      m4xMsaaQuality = 0,
      mCurrBackBuffer = 0,
      mFactory = False,
      md3dDevice = False,
      mFence = False,
      mSwapChain = False,
      mCommandQueue = False,
      mDirectCmdListAlloc = False,
      mCommandList = False,
      mSwapChainBuffer = [False, False],
      mDepthStencilBuffer = False,
      mRtvHeap = False,
      mDsvHeap = False,
      mScreenViewport = None,
      mScissorRect = None,
      mRtvDescriptorSize = 0,
      mDsvDescriptorSize = 0,
      mCbvSrvDescriptorSize = 0,
      calls = []\<rparr>"

text \<open>
  One native call: the driver answers from the history, and the call joins the history.
  \<open>native_out\<close> is a call with an interface out-parameter.
\<close>

definition native :: "driver \<Rightarrow> native_call \<Rightarrow> DirectX \<Rightarrow> HRESULT \<times> DirectX" where
  "native drv c s = (hresult_of drv (calls s) c, s\<lparr>calls := calls s @ [c]\<rparr>)"

definition native_out :: "driver \<Rightarrow> native_call \<Rightarrow> DirectX \<Rightarrow> HRESULT \<times> bool \<times> DirectX" where
  "native_out drv c s =
     (hresult_of drv (calls s) c, out_ptr drv (calls s) c, s\<lparr>calls := calls s @ [c]\<rparr>)"

text \<open>
  Every operation returns an \<open>option\<close>: \<open>None\<close> is "the call does not return". That
  happens when the code goes through a null pointer or fails an \<open>assert\<close> (the process
  stops), when it divides by zero, when a wait without timeout does not return and
  when an enumeration never ends. \<open>deref p\<close> is a member access through the pointer
  \<open>p\<close>, and also an \<open>assert(p)\<close>: the assertions are taken as compiled in. A
  statement about the calls that return is a statement about fewer calls than the
  code makes only where such a stop is possible.
\<close>

definition deref :: "bool \<Rightarrow> unit option" where
  "deref p = (if p then Some () else None)"

subsection \<open>Private member functions\<close>

definition initialiseDXGI :: "driver \<Rightarrow> DirectX \<Rightarrow> (FunctionResult \<times> DirectX) option" where
  "initialiseDXGI drv s =
     (let (hr, p, s1) = native_out drv CreateDXGIFactory1 s;
          s2 = s1\<lparr>mFactory := p\<rparr>
      in if FAILED hr then
           (let message = ''Could not create GXGI Factory.'';
                errMsg = narrow (ErrorMessage drv hr);
                message = message @ [CHR 0x0A] @ errMsg
            in Some (mkResult False FAIL message, s2))
         else Some (mkResult True SSUCCESS ''DXGI initalised successfully.'', s2))"

text \<open>
  \<open>getAdapter\<close> also returns what it leaves in the reference parameter \<open>pAdapter\<close>:
  whether it is a usable pointer. On \<open>DXGI_ERROR_NOT_FOUND\<close> the code sets it to null.
\<close>

definition getAdapter :: "driver \<Rightarrow> 32 word \<Rightarrow> DirectX \<Rightarrow> (FunctionResult \<times> bool \<times> DirectX) option" where
  "getAdapter drv adapterIndex s =
     do {
       _ \<leftarrow> deref (mFactory s);
       let (hr, pAdapter, s1) = native_out drv (EnumAdapterByGpuPreference adapterIndex) s;
       if hr \<noteq> DXGI_ERROR_NOT_FOUND
       then Some (mkResult True SSUCCESS ''Adapter returned.'', pAdapter, s1)
       else
         (let message = ''Could not find adapter at index position '';
              message = message @ to_string (sint adapterIndex) @ ''.''
          in Some (mkResult False FAIL message, False, s1))
     }"

definition initialiseD3D12 :: "driver \<Rightarrow> DirectX \<Rightarrow> (FunctionResult \<times> DirectX) option" where
  "initialiseD3D12 drv s =
     do {
       (res, adapter, s1) \<leftarrow> getAdapter drv 0 s;
       let (hr, p, s2) = native_out drv D3D12CreateDevice s1;
       let s3 = s2\<lparr>md3dDevice := p\<rparr>;
       if FAILED hr then
         do {
           _ \<leftarrow> deref adapter;
           let (hr0, s4) = native drv Adapter_Release s3;
           _ \<leftarrow> deref (mFactory s4);
           let (hr1, adapter1, s5) = native_out drv EnumWarpAdapter s4;
           if FAILED hr1 then Some (mkResult False FAIL ''Failed to create the warp adapter.'', s5)
           else
             (let (hr2, p2, s6) = native_out drv D3D12CreateDevice s5;
                  s7 = s6\<lparr>md3dDevice := p2\<rparr>
              in if FAILED hr2 then Some (mkResult False FAIL ''Failed to create the D3D12 device.'', s7)
                 else Some (mkResult True SSUCCESS
                        ''Successfully created the D3D12 device using a warp adapter.'', s7))
         }
       else Some (mkResult True SSUCCESS ''Successfully created the D3D12 device.'', s3)
     }"

definition initialiseFence :: "driver \<Rightarrow> DirectX \<Rightarrow> (FunctionResult \<times> DirectX) option" where
  "initialiseFence drv s =
     do {
       _ \<leftarrow> deref (md3dDevice s);
       let (hr, p, s1) = native_out drv CreateFence s;
       let s2 = s1\<lparr>mFence := p\<rparr>;
       if FAILED hr then Some (mkResult False FAIL ''Failed to create a fence object.'', s2)
       else Some (mkResult True SSUCCESS ''Successfully created a fence object.'', s2)
     }"

definition cacheDescriptorSizes :: "driver \<Rightarrow> DirectX \<Rightarrow> DirectX option" where
  "cacheDescriptorSizes drv s =
     do {
       _ \<leftarrow> deref (md3dDevice s);
       let (hr1, s1) = native drv (GetDescriptorHandleIncrementSize RTV) s;
       let s2 = s1\<lparr>mRtvDescriptorSize := increment_size drv RTV\<rparr>;
       let (hr2, s3) = native drv (GetDescriptorHandleIncrementSize DSV) s2;
       let s4 = s3\<lparr>mDsvDescriptorSize := increment_size drv DSV\<rparr>;
       let (hr3, s5) = native drv (GetDescriptorHandleIncrementSize CBV_SRV_UAV) s4;
       Some (s5\<lparr>mCbvSrvDescriptorSize := increment_size drv CBV_SRV_UAV\<rparr>)
     }"

definition checkMultisampling :: "driver \<Rightarrow> DirectX \<Rightarrow> (FunctionResult \<times> DirectX) option" where
  "checkMultisampling drv s =
     do {
       _ \<leftarrow> deref (md3dDevice s);
       let (hr, s1) = native drv CheckFeatureSupport s;
       let NumQualityLevels = quality_levels drv (calls s1);
       if FAILED hr then Some (mkResult False FAIL ''Feature check for 4X MSAA support failed.'', s1)
       else if NumQualityLevels \<le> 0 then Some (mkResult False FAIL ''Unexpected MSAA quality level.'', s1)
       else Some (mkResult True SSUCCESS ''4X MSAA Supported.'', s1)
     }"

definition initialiseCommandObjects :: "driver \<Rightarrow> DirectX \<Rightarrow> (FunctionResult \<times> DirectX) option" where
  "initialiseCommandObjects drv s =
     do {
       _ \<leftarrow> deref (md3dDevice s);
       let (hr, p, s1) = native_out drv CreateCommandQueue s;
       let s2 = s1\<lparr>mCommandQueue := p\<rparr>;
       if FAILED hr then Some (mkResult False FAIL ''Failed to create the primary command queue.'', s2)
       else
         (let (hr1, p1, s3) = native_out drv CreateCommandAllocator s2;
              s4 = s3\<lparr>mDirectCmdListAlloc := p1\<rparr>
          in if FAILED hr1
             then Some (mkResult False FAIL
                    ''Failed to create a command allocator for the primary command queue.'', s4)
             else
               (let (hr2, p2, s5) = native_out drv CreateCommandList s4;
                    s6 = s5\<lparr>mCommandList := p2\<rparr>
                in if FAILED hr2
                   then Some (mkResult False FAIL
                          ''Failed to create the command list for the primary command queue.'', s6)
                   else
                     do {
                       _ \<leftarrow> deref (mCommandList s6);
                       let (hr3, s7) = native drv CommandList_Close s6;
                       Some (mkResult True SSUCCESS
                          ''Successfully created the primary command queue.'', s7)
                     }))
     }"

text \<open>
  C++ integer division truncates towards zero. Dividing by zero stops the process, and
  so does dividing the least 32-bit \<open>int\<close> by -1, whose quotient is not an \<open>int\<close>.
\<close>

definition c_div :: "int \<Rightarrow> int \<Rightarrow> int option" where
  "c_div a b = (if b = 0 \<or> (a = - (2 ^ 31) \<and> b = - 1) then None
                else Some (sgn a * sgn b * (\<bar>a\<bar> div \<bar>b\<bar>)))"

definition initialiseSwapChain :: "driver \<Rightarrow> int \<Rightarrow> int \<Rightarrow> DirectX \<Rightarrow> (FunctionResult \<times> DirectX) option" where
  "initialiseSwapChain drv rrNumerator rrDenominator s =
     do {
       let s1 = s\<lparr>mSwapChain := False\<rparr>;
       _ \<leftarrow> deref (mFactory s1);
       let (hr, p, s2) =
         native_out drv (CreateSwapChain (mClientWidth s1) (mClientHeight s1) rrNumerator rrDenominator) s1;
       let s3 = s2\<lparr>mSwapChain := p\<rparr>;
       if FAILED hr then
         do {
           let message = ''Failed to create the swap chain. '' @ [CHR 0x0A];
           let message = message @ ''Resolution: '' @ to_string (mClientWidth s3) @ ''x''
                           @ to_string (mClientHeight s3) @ [CHR 0x0A];
           rate \<leftarrow> c_div rrNumerator rrDenominator;
           let message = message @ ''Refresh Rate: '' @ to_string rate @ [CHR 0x0A];
           Some (mkResult False FAIL message, s3)
         }
       else Some (mkResult True SSUCCESS ''Successfully initialised the swap chain.'', s3)
     }"

definition initialiseRtvAndDsvDescriptorHeaps :: "driver \<Rightarrow> DirectX \<Rightarrow> (FunctionResult \<times> DirectX) option" where
  "initialiseRtvAndDsvDescriptorHeaps drv s =
     do {
       _ \<leftarrow> deref (md3dDevice s);
       let (hr, p, s1) = native_out drv (CreateDescriptorHeap RTV) s;
       let s2 = s1\<lparr>mRtvHeap := p\<rparr>;
       if FAILED hr then Some (mkResult False FAIL ''Failed to create descriptor heap (RTV).'', s2)
       else
         (let (hr1, p1, s3) = native_out drv (CreateDescriptorHeap DSV) s2;
              s4 = s3\<lparr>mDsvHeap := p1\<rparr>
          in if FAILED hr1 then Some (mkResult False FAIL ''Failed to create descriptor heap (DSV).'', s4)
             else Some (mkResult True SSUCCESS
                    ''Successfully created the render target view and depth stencil view.'', s4))
     }"

text \<open>
  \<open>getOutput\<close> takes and returns the state of the reference parameter \<open>pOutput\<close>: it is
  left as it was when the adapter lookup fails.
\<close>

definition getOutput :: "driver \<Rightarrow> 32 word \<Rightarrow> 32 word \<Rightarrow> bool \<Rightarrow> DirectX \<Rightarrow> (FunctionResult \<times> bool \<times> DirectX) option" where
  "getOutput drv pAdapterIndex pOutputIndex pOutput s =
     do {
       (res, adapter, s1) \<leftarrow> getAdapter drv pAdapterIndex s;
       if \<not> is_successfull res then Some (res, pOutput, s1)
       else
         do {
           _ \<leftarrow> deref adapter;
           let (hr, p, s2) = native_out drv (EnumOutputs pOutputIndex) s1;
           if hr \<noteq> DXGI_ERROR_NOT_FOUND
           then Some (mkResult True SSUCCESS ''Output device returned.'', p, s2)
           else
             (let (hr1, s3) = native drv Adapter_Release s2;
                  message = ''Could not find output device at index position '';
                  message = message @ to_string (sint pOutputIndex) @ ''.''
              in Some (mkResult False FAIL message, False, s3))
         }
     }"

text \<open>
  \<open>flushCommandQueue\<close>. \<open>completed_value drv h\<close> is what \<open>GetCompletedValue\<close> reads
  once the calls \<open>h\<close> have been made. The results of \<open>CreateEventEx\<close>,
  \<open>WaitForSingleObject\<close> and \<open>CloseHandle\<close> are not looked at, and the fence is not
  read again after the wait: when the wait returns, the function reports success.
\<close>

definition flushCommandQueue :: "driver \<Rightarrow> DirectX \<Rightarrow> (FunctionResult \<times> DirectX) option" where
  "flushCommandQueue drv s =
     do {
       let s1 = s\<lparr>mCurrentFence := mCurrentFence s + 1\<rparr>;
       _ \<leftarrow> deref (mCommandQueue s1);
       let (hr, s2) = native drv (Signal (mCurrentFence s1)) s1;
       if FAILED hr then Some (mkResult False FAIL ''Failed to signal the command queue.'', s2)
       else
         do {
           _ \<leftarrow> deref (mFence s2);
           let (hr0, s3) = native drv GetCompletedValue s2;
           if completed_value drv (calls s3) < mCurrentFence s3 then
             do {
               let (hr1, s4) = native drv CreateEventEx s3;
               let (hr2, s5) = native drv (SetEventOnCompletion (mCurrentFence s4)) s4;
               if FAILED hr2
               then Some (mkResult False FAIL ''Failed to fire event on fence completion.'', s5)
               else
                 do {
                   let (hr3, s6) = native drv WaitForSingleObject s5;
                   _ \<leftarrow> (if wait_returns drv (calls s6) then Some () else None);
                   let (hr4, s7) = native drv CloseHandle s6;
                   Some (mkResult True SSUCCESS ''Successfully flushed the command queue.'', s7)
                 }
             }
           else Some (mkResult True SSUCCESS ''Successfully flushed the command queue.'', s3)
         }
     }"

text \<open>
  The three accessors. \<open>CurrentBackBuffer\<close> indexes the array of
  \<open>SwapChainBufferCount\<close> buffers with \<open>mCurrBackBuffer\<close>; an index outside the array
  is not a defined read.
\<close>

definition DepthStencilView :: "DirectX \<Rightarrow> unit option" where
  "DepthStencilView s = deref (mDsvHeap s)"

definition CurrentBackBufferView :: "DirectX \<Rightarrow> int option" where
  "CurrentBackBufferView s = do { _ \<leftarrow> deref (mRtvHeap s); Some (mCurrBackBuffer s) }"

definition CurrentBackBuffer :: "DirectX \<Rightarrow> resource option" where
  "CurrentBackBuffer s =
     (if 0 \<le> mCurrBackBuffer s \<and> mCurrBackBuffer s < SwapChainBufferCount
      then Some (BackBuffer (mCurrBackBuffer s)) else None)"

subsection \<open>Public member functions\<close>

text \<open>
  The enumeration loops run until the driver answers \<open>DXGI_ERROR_NOT_FOUND\<close>; nothing
  in the code bounds them, so they are partial functions. The counter is a \<open>UINT\<close>
  and becomes the \<open>int\<close> index of the list element.
\<close>

partial_function (option) getAdapters_loop ::
  "driver \<Rightarrow> 32 word \<Rightarrow> GraphicsAdapterList \<Rightarrow> DirectX \<Rightarrow> (GraphicsAdapterList \<times> DirectX) option" where
  "getAdapters_loop drv i adapters s =
     do {
       _ \<leftarrow> deref (mFactory s);
       let (hr, adapter, s1) = native_out drv (EnumAdapterByGpuPreference i) s;
       if hr \<noteq> DXGI_ERROR_NOT_FOUND then
         do {
           _ \<leftarrow> deref adapter;
           let (hr1, s2) = native drv Adapter_GetDesc s1;
           let adapterName = narrow (description drv (calls s2));
           getAdapters_loop drv (i + 1) (adapters @ [GraphicsAdapter (sint i) adapterName]) s2
         }
       else Some (adapters, s1)
     }"

declare getAdapters_loop.simps [code]

definition DirectX_getAdapters ::
  "driver \<Rightarrow> GraphicsAdapterList \<Rightarrow> DirectX \<Rightarrow> (FunctionResult \<times> GraphicsAdapterList \<times> DirectX) option" where
  "DirectX_getAdapters drv adapters s =
     do {
       (adapters', s1) \<leftarrow> getAdapters_loop drv 0 adapters s;
       Some (mkResult True SSUCCESS ''Adapters returned.'', adapters', s1)
     }"

partial_function (option) getOutputs_loop ::
  "driver \<Rightarrow> bool \<Rightarrow> 32 word \<Rightarrow> GraphicsOutputList \<Rightarrow> DirectX \<Rightarrow> (GraphicsOutputList \<times> DirectX) option" where
  "getOutputs_loop drv adapter i outputs s =
     do {
       _ \<leftarrow> deref adapter;
       let (hr, output, s1) = native_out drv (EnumOutputs i) s;
       if hr \<noteq> DXGI_ERROR_NOT_FOUND then
         do {
           _ \<leftarrow> deref output;
           let (hr1, s2) = native drv Output_GetDesc s1;
           let outputName = narrow (description drv (calls s2));
           getOutputs_loop drv adapter (i + 1) (outputs @ [GraphicsOutput (sint i) outputName]) s2
         }
       else Some (outputs, s1)
     }"

declare getOutputs_loop.simps [code]

definition DirectX_getOutputs ::
  "driver \<Rightarrow> 32 word \<Rightarrow> GraphicsOutputList \<Rightarrow> DirectX \<Rightarrow> (FunctionResult \<times> GraphicsOutputList \<times> DirectX) option" where
  "DirectX_getOutputs drv index outputs s =
     do {
       (res, adapter, s1) \<leftarrow> getAdapter drv index s;
       (outputs', s2) \<leftarrow> getOutputs_loop drv adapter 0 outputs s1;
       Some (mkResult True SSUCCESS ''Output devices returned.'', outputs', s2)
     }"

text \<open>
  The loop of \<open>getDisplayModes\<close> over the vector \<open>modeList\<close>; \<open>n / d\<close> is an unsigned
  division, and a zero denominator stops the process.
\<close>

fun pushDisplayModes :: "int \<Rightarrow> DXGI_MODE_DESC list \<Rightarrow> DisplayModeList \<Rightarrow> DisplayModeList option" where
  "pushDisplayModes i [] pDisplayModes = Some pDisplayModes"
| "pushDisplayModes i (m # modeList) pDisplayModes =
     (let n = Numerator m; d = Denominator m
      in if d = 0 then None
         else pushDisplayModes (i + 1) modeList
                (pDisplayModes @ [DisplayMode i (Width m) (Height m) (n div d)]))"

text \<open>
  The first \<open>GetDisplayModeList\<close> writes the count, the vector is created with that
  many zero entries, and the second call fills at most that many of them. The loop
  index is an \<open>int\<close> in the code; the model counts without bound, which is the same
  up to \<open>INT_MAX\<close> entries.
\<close>

definition zero_mode :: DXGI_MODE_DESC where
  "zero_mode = \<lparr>Width = 0, Height = 0, Numerator = 0, Denominator = 0\<rparr>"

definition DirectX_getDisplayModes ::
  "driver \<Rightarrow> 32 word \<Rightarrow> 32 word \<Rightarrow> DisplayModeList \<Rightarrow> DirectX
     \<Rightarrow> (FunctionResult \<times> DisplayModeList \<times> DirectX) option" where
  "DirectX_getDisplayModes drv pAdapterIndex pOutputIndex pDisplayModes s =
     do {
       (res, output, s1) \<leftarrow> getOutput drv pAdapterIndex pOutputIndex False s;
       if \<not> is_successfull res then Some (res, pDisplayModes, s1)
       else
         do {
           _ \<leftarrow> deref output;
           let (hr, s2) = native drv GetDisplayModeList s1;
           let count = mode_count drv (calls s2);
           let (hr1, s3) = native drv GetDisplayModeList s2;
           let modeList = take (unat count) (mode_list drv (calls s3) @ replicate (unat count) zero_mode);
           pDisplayModes' \<leftarrow> pushDisplayModes 0 modeList pDisplayModes;
           Some (mkResult True SSUCCESS ''Display modes returned.'', pDisplayModes', s3)
         }
     }"

definition DirectX_initialise :: "driver \<Rightarrow> DirectX \<Rightarrow> (FunctionResult \<times> DirectX) option" where
  "DirectX_initialise drv s =
     do {
       let msg = ''Initialising DirectX. '' @ [CHR 0x0A];
       (initialised, s1) \<leftarrow> initialiseDXGI drv s;
       let msg = msg @ message initialised @ [CHR 0x0A];
       if \<not> is_successfull initialised then Some (initialised, s1)
       else
         do {
           (initialised, s2) \<leftarrow> initialiseD3D12 drv s1;
           let msg = msg @ message initialised @ [CHR 0x0A];
           if \<not> is_successfull initialised then Some (initialised, s2)
           else
             do {
               (initialised, s3) \<leftarrow> initialiseFence drv s2;
               let msg = msg @ message initialised @ [CHR 0x0A];
               if \<not> is_successfull initialised then Some (initialised, s3)
               else
                 do {
                   s4 \<leftarrow> cacheDescriptorSizes drv s3;
                   (initialised, s5) \<leftarrow> initialiseCommandObjects drv s4;
                   let msg = msg @ message initialised @ [CHR 0x0A];
                   if \<not> is_successfull initialised then Some (initialised, s5)
                   else
                     do {
                       (initialised, s6) \<leftarrow> initialiseSwapChain drv 60 1 s5;
                       let msg = msg @ message initialised @ [CHR 0x0A];
                       if \<not> is_successfull initialised then Some (initialised, s6)
                       else
                         do {
                           (initialised, s7) \<leftarrow> initialiseRtvAndDsvDescriptorHeaps drv s6;
                           let msg = msg @ message initialised @ [CHR 0x0A];
                           if \<not> is_successfull initialised then Some (initialised, s7)
                           else
                             (let msg = msg @ ''Initialising DirectX was successful.''
                              in Some (mkResult True SSUCCESS msg, s7))
                         }
                     }
                 }
             }
         }
     }"

text \<open>
  The loop \<open>for (UINT i = 0; i < SwapChainBufferCount; i++)\<close> of \<open>onResize\<close>, over the
  indices it visits. The first component is the early return, if any.
\<close>

fun onResize_buffers :: "driver \<Rightarrow> 32 word list \<Rightarrow> DirectX \<Rightarrow> FunctionResult option \<times> DirectX" where
  "onResize_buffers drv [] s = (None, s)"
| "onResize_buffers drv (i # rest) s =
     (let (hr, p, s1) = native_out drv (GetBuffer i) s;
          s2 = s1\<lparr>mSwapChainBuffer := (mSwapChainBuffer s1)[unat i := p]\<rparr>
      in if FAILED hr
         then (Some (mkResult False FAIL ''Failed to get a buffer from the swap chain.''), s2)
         else (let (hr1, s3) = native drv (CreateRenderTargetView i) s2
               in onResize_buffers drv rest s3))"

definition DirectX_onResize :: "driver \<Rightarrow> DirectX \<Rightarrow> (FunctionResult \<times> DirectX) option" where
  "DirectX_onResize drv s =
     do {
       _ \<leftarrow> deref (md3dDevice s);
       _ \<leftarrow> deref (mSwapChain s);
       _ \<leftarrow> deref (mDirectCmdListAlloc s);
       (res, s1) \<leftarrow> flushCommandQueue drv s;
       if \<not> is_successfull res then Some (res, s1)
       else
         do {
           _ \<leftarrow> deref (mCommandList s1);
           let (hr, s2) = native drv CommandList_Reset s1;
           if FAILED hr then Some (mkResult False FAIL ''Failed to reset command list.'', s2)
           else
             do {
               let s3 = s2\<lparr>mSwapChainBuffer := [False, False], mDepthStencilBuffer := False\<rparr>;
               let (hr1, s4) = native drv (ResizeBuffers (mClientWidth s3) (mClientHeight s3)) s3;
               if FAILED hr1 then Some (mkResult False FAIL ''Failed to resize swap chain buffers.'', s4)
               else
                 do {
                   let s5 = s4\<lparr>mCurrBackBuffer := 0\<rparr>;
                   _ \<leftarrow> deref (mRtvHeap s5);
                   case onResize_buffers drv [0, 1] s5 of
                     (Some r, s6) \<Rightarrow> Some (r, s6)
                   | (None, s6) \<Rightarrow>
                       (let (hr2, p, s7) = native_out drv CreateCommittedResource s6;
                            s8 = s7\<lparr>mDepthStencilBuffer := p\<rparr>
                        in if FAILED hr2
                           then Some (mkResult False FAIL ''Failed to create a commited resource.'', s8)
                           else
                             do {
                               _ \<leftarrow> DepthStencilView s8;
                               let (hr3, s9) = native drv CreateDepthStencilView s8;
                               let (hr4, s10) = native drv (ResourceBarrier DepthStencilBuffer) s9;
                               let (hr5, s11) = native drv CommandList_Close s10;
                               if FAILED hr5
                               then Some (mkResult False FAIL ''Failed to close the command list.'', s11)
                               else
                                 do {
                                   _ \<leftarrow> deref (mCommandQueue s11);
                                   let (hr6, s12) = native drv ExecuteCommandLists s11;
                                   (res1, s13) \<leftarrow> flushCommandQueue drv s12;
                                   if \<not> is_successfull res1 then Some (res1, s13)
                                   else
                                     (let s14 = s13\<lparr>mScreenViewport :=
                                                   Some (0, 0, mClientWidth s13, mClientHeight s13)\<rparr>;
                                          s15 = s14\<lparr>mScissorRect :=
                                                   Some (0, 0, mClientWidth s14, mClientHeight s14)\<rparr>
                                      in Some (mkResult True SSUCCESS ''Succseeful.'', s15))
                                 }
                             })
                 }
             }
         }
     }"

text \<open>The C++ remainder has the sign of the dividend; a zero divisor stops the process.\<close>

definition c_rem :: "int \<Rightarrow> int \<Rightarrow> int option" where
  "c_rem a b = (if b = 0 then None else Some (sgn a * (\<bar>a\<bar> mod \<bar>b\<bar>)))"

definition DirectX_render :: "driver \<Rightarrow> DirectX \<Rightarrow> (FunctionResult \<times> DirectX) option" where
  "DirectX_render drv s =
     do {
       _ \<leftarrow> deref (md3dDevice s);
       _ \<leftarrow> deref (mSwapChain s);
       _ \<leftarrow> deref (mDirectCmdListAlloc s);
       let (hr, s1) = native drv CommandAllocator_Reset s;
       if FAILED hr then Some (mkResult False FAIL ''Failed to reset the command list allocator.'', s1)
       else
         do {
           _ \<leftarrow> deref (mCommandList s1);
           let (hr1, s2) = native drv CommandList_Reset s1;
           if FAILED hr1 then Some (mkResult False FAIL ''Failed to reset the command list.'', s2)
           else
             do {
               buf \<leftarrow> CurrentBackBuffer s2;
               let (hr2, s3) = native drv (ResourceBarrier buf) s2;
               let (hr3, s4) = native drv RSSetViewports s3;
               let (hr4, s5) = native drv RSSetScissorRects s4;
               view \<leftarrow> CurrentBackBufferView s5;
               let (hr5, s6) = native drv (ClearRenderTargetView view) s5;
               _ \<leftarrow> DepthStencilView s6;
               let (hr6, s7) = native drv ClearDepthStencilView s6;
               view1 \<leftarrow> CurrentBackBufferView s7;
               _ \<leftarrow> DepthStencilView s7;
               let (hr7, s8) = native drv (OMSetRenderTargets view1) s7;
               buf1 \<leftarrow> CurrentBackBuffer s8;
               let (hr8, s9) = native drv (ResourceBarrier buf1) s8;
               let (hr9, s10) = native drv CommandList_Close s9;
               if FAILED hr9 then Some (mkResult False FAIL ''Failed to close the command list.'', s10)
               else
                 do {
                   _ \<leftarrow> deref (mCommandQueue s10);
                   let (hr10, s11) = native drv ExecuteCommandLists s10;
                   let (hr11, s12) = native drv Present s11;
                   if FAILED hr11 then Some (mkResult False FAIL ''Failed to present the swap chain.'', s12)
                   else
                     do {
                       next_buffer \<leftarrow> c_rem (mCurrBackBuffer s12 + 1) SwapChainBufferCount;
                       let s13 = s12\<lparr>mCurrBackBuffer := next_buffer\<rparr>;
                       (res, s14) \<leftarrow> flushCommandQueue drv s13;
                       Some (mkResult True SSUCCESS ''Successfully rendered frame.'', s14)
                     }
                 }
             }
         }
     }"

definition DirectX_update :: "driver \<Rightarrow> DirectX \<Rightarrow> (FunctionResult \<times> DirectX) option" where
  "DirectX_update drv s = Some (mkResult True SSUCCESS ''Succseeful.'', s)"

definition DirectX_destroy :: "driver \<Rightarrow> DirectX \<Rightarrow> (FunctionResult \<times> DirectX) option" where
  "DirectX_destroy drv s = Some (mkResult True SSUCCESS ''Succseeful.'', s)"

text \<open>The destructor; the result of its flush is dropped.\<close>

definition DirectX_dtor :: "driver \<Rightarrow> DirectX \<Rightarrow> DirectX option" where
  "DirectX_dtor drv s =
     do {
       s1 \<leftarrow> (if md3dDevice s then map_option snd (flushCommandQueue drv s) else Some s);
       if mFactory s1
       then (let (hr, s2) = native drv Factory_Release s1 in Some (s2\<lparr>mFactory := False\<rparr>))
       else Some s1
     }"

section \<open>The facade (Syren Render.h, Syren Render.cpp)\<close>

text \<open>
  \<open>m_API\<close> is a \<open>shared_ptr<GraphicsAPI>\<close>. \<open>DirectX\<close> is the only class derived from
  \<open>GraphicsAPI\<close>, so the pointer is null (\<open>None\<close>) or owns a \<open>DirectX\<close>. The facade
  never hands the pointer out: assigning a new backend destroys the old one.
\<close>

record SyrenRender =
  m_is_initialised :: bool
  m_config :: GraphicsConfig
  m_API :: "DirectX option"

definition SyrenRender_new :: SyrenRender where
  "SyrenRender_new = \<lparr>m_is_initialised = False, m_config = \<lparr>GraphicsAPI = NONE\<rparr>, m_API = None\<rparr>"

definition isInitialised :: "SyrenRender \<Rightarrow> bool" where
  "isInitialised t = m_is_initialised t"

definition select_api :: "API \<Rightarrow> nat \<Rightarrow> DirectX" where
  "select_api p_api phMainWnd = DirectX_new phMainWnd"

text \<open>The assignment \<open>m_API = ...\<close>: the backend owned so far, if any, is destroyed.\<close>

definition assign_API :: "driver \<Rightarrow> DirectX \<Rightarrow> SyrenRender \<Rightarrow> SyrenRender option" where
  "assign_API drv api t =
     (case m_API t of
        None \<Rightarrow> Some (t\<lparr>m_API := Some api\<rparr>)
      | Some old \<Rightarrow> do { _ \<leftarrow> DirectX_dtor drv old; Some (t\<lparr>m_API := Some api\<rparr>) })"

definition SyrenRender_initialise ::
  "cfg_file \<Rightarrow> driver \<Rightarrow> nat \<Rightarrow> SyrenRender \<Rightarrow> (FunctionResult \<times> SyrenRender) option" where
  "SyrenRender_initialise fconfig drv phMainWnd t =
     (let (initialised, config) = loadConfig fconfig (m_config t);
          t1 = t\<lparr>m_config := config\<rparr>
      in if is_successfull initialised \<and> result initialised = SSUCCESS then
           do {
             t2 \<leftarrow> assign_API drv (select_api (GraphicsAPI (m_config t1)) phMainWnd) t1;
             api \<leftarrow> m_API t2;
             (initialised, api') \<leftarrow> DirectX_initialise drv api;
             let t3 = t2\<lparr>m_API := Some api'\<rparr>;
             let t4 = t3\<lparr>m_is_initialised := True\<rparr>;
             Some (initialised, t4)
           }
         else
           do {
             let t2 = t1\<lparr>m_config := (m_config t1)\<lparr>GraphicsAPI := DIRECTX\<rparr>\<rparr>;
             t3 \<leftarrow> assign_API drv (select_api DIRECTX phMainWnd) t2;
             api \<leftarrow> m_API t3;
             (initialised, api') \<leftarrow> DirectX_initialise drv api;
             let t4 = t3\<lparr>m_API := Some api'\<rparr>;
             let t5 = t4\<lparr>m_is_initialised := True\<rparr>;
             Some (initialised, t5)
           })"

definition SyrenRender_onResize :: "driver \<Rightarrow> SyrenRender \<Rightarrow> (FunctionResult \<times> SyrenRender) option" where
  "SyrenRender_onResize drv t =
     do {
       api \<leftarrow> m_API t;
       (res, api') \<leftarrow> DirectX_onResize drv api;
       let t1 = t\<lparr>m_API := Some api'\<rparr>;
       if \<not> is_successfull res then Some (res, t1)
       else Some (mkResult True SSUCCESS ''Successfully resized window.'', t1)
     }"

definition SyrenRender_draw :: "driver \<Rightarrow> SyrenRender \<Rightarrow> (FunctionResult \<times> SyrenRender) option" where
  "SyrenRender_draw drv t =
     do {
       api \<leftarrow> m_API t;
       (res, api') \<leftarrow> DirectX_render drv api;
       Some (res, t\<lparr>m_API := Some api'\<rparr>)
     }"

definition SyrenRender_getAdapters ::
  "driver \<Rightarrow> GraphicsAdapterList \<Rightarrow> SyrenRender
     \<Rightarrow> (FunctionResult \<times> GraphicsAdapterList \<times> SyrenRender) option" where
  "SyrenRender_getAdapters drv adapters t =
     (if m_is_initialised t then
        do {
          api \<leftarrow> m_API t;
          (res, adapters', api') \<leftarrow> DirectX_getAdapters drv adapters api;
          Some (res, adapters', t\<lparr>m_API := Some api'\<rparr>)
        }
      else Some (mkResult False FAIL ''Graphics API has not been initialised.'', adapters, t))"

definition SyrenRender_getOutputs ::
  "driver \<Rightarrow> 32 word \<Rightarrow> GraphicsOutputList \<Rightarrow> SyrenRender
     \<Rightarrow> (FunctionResult \<times> GraphicsOutputList \<times> SyrenRender) option" where
  "SyrenRender_getOutputs drv index outputs t =
     (if m_is_initialised t then
        do {
          api \<leftarrow> m_API t;
          (res, outputs', api') \<leftarrow> DirectX_getOutputs drv index outputs api;
          Some (res, outputs', t\<lparr>m_API := Some api'\<rparr>)
        }
      else Some (mkResult False FAIL ''Graphics API has not been initialised.'', outputs, t))"

definition SyrenRender_getDisplayModes ::
  "driver \<Rightarrow> 32 word \<Rightarrow> 32 word \<Rightarrow> DisplayModeList \<Rightarrow> SyrenRender
     \<Rightarrow> (FunctionResult \<times> DisplayModeList \<times> SyrenRender) option" where
  "SyrenRender_getDisplayModes drv adapterIndex OutputIndex displayModes t =
     (if m_is_initialised t then
        do {
          api \<leftarrow> m_API t;
          (res, displayModes', api') \<leftarrow>
            DirectX_getDisplayModes drv adapterIndex OutputIndex displayModes api;
          Some (res, displayModes', t\<lparr>m_API := Some api'\<rparr>)
        }
      else Some (mkResult False FAIL ''Graphics API has not been initialised.'', displayModes, t))"

section \<open>Notions used by the statements\<close>

text \<open>The relation between the two fields of a result that tell success from failure.\<close>

definition wf_result :: "FunctionResult \<Rightarrow> bool" where
  "wf_result r = (is_successfull r = (result r \<noteq> FAIL))"

subsection \<open>The initialisation sequence, as the specification words it\<close>

text \<open>
  A sequence of steps performed in order. A checked step returns a result, and the
  first unsuccessful one ends the sequence: no later step is performed.
  \<open>run_in_order\<close> gives the results of the checked steps it performed and the instance
  they leave behind.
\<close>

datatype init_step =
    Checked "DirectX \<Rightarrow> (FunctionResult \<times> DirectX) option"
  | Unchecked "DirectX \<Rightarrow> DirectX option"

fun run_in_order :: "init_step list \<Rightarrow> DirectX \<Rightarrow> (FunctionResult list \<times> DirectX) option" where
  "run_in_order [] s = Some ([], s)"
| "run_in_order (Unchecked g # steps) s =
     (case g s of None \<Rightarrow> None | Some s1 \<Rightarrow> run_in_order steps s1)"
| "run_in_order (Checked f # steps) s =
     (case f s of
        None \<Rightarrow> None
      | Some (r, s1) \<Rightarrow>
          if is_successfull r
          then (case run_in_order steps s1 of
                  None \<Rightarrow> None
                | Some (rs, s2) \<Rightarrow> Some (r # rs, s2))
          else Some ([r], s1))"

definition initialise_sequence :: "driver \<Rightarrow> init_step list" where
  "initialise_sequence drv =
     [Checked (initialiseDXGI drv),
      Checked (initialiseD3D12 drv),
      Checked (initialiseFence drv),
      Unchecked (cacheDescriptorSizes drv),
      Checked (initialiseCommandObjects drv),
      Checked (initialiseSwapChain drv 60 1),
      Checked (initialiseRtvAndDsvDescriptorHeaps drv)]"

text \<open>The calls device creation adds when it falls back to the WARP adapter.\<close>

definition warp_calls :: "native_call list" where
  "warp_calls = [Adapter_Release, EnumWarpAdapter, D3D12CreateDevice]"

definition initialise_message :: "FunctionResult list \<Rightarrow> string" where
  "initialise_message rs =
     ''Initialising DirectX. '' @ [CHR 0x0A] @ concat (map (\<lambda>r. message r @ [CHR 0x0A]) rs)
       @ ''Initialising DirectX was successful.''"

subsection \<open>The configuration file, as the specification words it\<close>

definition is_api_line :: "string \<Rightarrow> bool" where
  "is_api_line line = (find_str line ''api'' \<noteq> None)"

definition api_value :: "string \<Rightarrow> string" where
  "api_value line = extract_word (substr_after_colon line)"

definition recognised :: "string \<Rightarrow> bool" where
  "recognised v = (v = ''directx'' \<or> v = ''opengl'' \<or> v = ''vulkan'')"

definition api_of :: "string \<Rightarrow> API" where
  "api_of v =
     (if v = ''directx'' then DIRECTX
      else if v = ''opengl'' then OPENGL
      else if v = ''vulkan'' then VULKAN
      else NONE)"

text \<open>
  The value of \<open>config.GraphicsAPI\<close> after all lines have been read: the enumerator of the
  last "api" line, or the value on entry when there is no such line.
\<close>

definition final_api :: "string list \<Rightarrow> API \<Rightarrow> API" where
  "final_api ls entry =
     (case filter is_api_line ls of
        [] \<Rightarrow> entry
      | l # rest \<Rightarrow> api_of (api_value (last (l # rest))))"

subsection \<open>Operations on a DirectX instance\<close>

text \<open>
  The public operations of the class, to speak of "every operation" and of sequences of
  them. Each call of a sequence comes with the driver behaviour it meets.
\<close>

datatype DirectX_op =
    Op_initialise
  | Op_onResize
  | Op_render
  | Op_update
  | Op_destroy
  | Op_getAdapters GraphicsAdapterList
  | Op_getOutputs "32 word" GraphicsOutputList
  | Op_getDisplayModes "32 word" "32 word" DisplayModeList

fun DirectX_call :: "driver \<Rightarrow> DirectX_op \<Rightarrow> DirectX \<Rightarrow> (FunctionResult \<times> DirectX) option" where
  "DirectX_call drv Op_initialise s = DirectX_initialise drv s"
| "DirectX_call drv Op_onResize s = DirectX_onResize drv s"
| "DirectX_call drv Op_render s = DirectX_render drv s"
| "DirectX_call drv Op_update s = DirectX_update drv s"
| "DirectX_call drv Op_destroy s = DirectX_destroy drv s"
| "DirectX_call drv (Op_getAdapters adapters) s =
     map_option (\<lambda>(r, l, s'). (r, s')) (DirectX_getAdapters drv adapters s)"
| "DirectX_call drv (Op_getOutputs index outputs) s =
     map_option (\<lambda>(r, l, s'). (r, s')) (DirectX_getOutputs drv index outputs s)"
| "DirectX_call drv (Op_getDisplayModes a b displayModes) s =
     map_option (\<lambda>(r, l, s'). (r, s')) (DirectX_getDisplayModes drv a b displayModes s)"

fun DirectX_run :: "(driver \<times> DirectX_op) list \<Rightarrow> DirectX \<Rightarrow> DirectX option" where
  "DirectX_run [] s = Some s"
| "DirectX_run ((drv, op) # rest) s =
     (case DirectX_call drv op s of None \<Rightarrow> None | Some (r, s1) \<Rightarrow> DirectX_run rest s1)"

subsection \<open>Example machines\<close>

text \<open>
  \<open>one_gpu\<close> is a machine with one adapter, one output and one display mode, on which
  every call succeeds and the GPU has completed every signal as soon as it is sent.
  \<open>failing c\<close> is the same machine with the call \<open>c\<close> returning \<open>E_FAIL\<close>.
  \<open>lagging_gpu\<close> is the same machine with a GPU that works only while the CPU waits
  for it: the fence's completed value is the last value signalled before the last wait,
  and a wait returns when the value its event was armed for has been signalled.
\<close>

fun last_signal :: "native_call list \<Rightarrow> 64 word \<Rightarrow> 64 word" where
  "last_signal [] v = v"
| "last_signal (Signal x # h) v = last_signal h x"
| "last_signal (c # h) v = last_signal h v"

definition one_gpu :: driver where
  "one_gpu =
     \<lparr>hresult_of = (\<lambda>h c. case c of
                        EnumAdapterByGpuPreference i \<Rightarrow> if i = 0 then S_OK else DXGI_ERROR_NOT_FOUND
                      | EnumOutputs i \<Rightarrow> if i = 0 then S_OK else DXGI_ERROR_NOT_FOUND
                      | _ \<Rightarrow> S_OK),
      out_ptr = (\<lambda>h c. case c of
                        EnumAdapterByGpuPreference i \<Rightarrow> i = 0
                      | EnumOutputs i \<Rightarrow> i = 0
                      | _ \<Rightarrow> True),
      completed_value = (\<lambda>h. last_signal h 0),
      wait_returns = (\<lambda>h. True),
      increment_size = (\<lambda>t. 32),
      quality_levels = (\<lambda>h. 1),
      description = (\<lambda>h. []),
      mode_count = (\<lambda>h. 1),
      mode_list = (\<lambda>h. [\<lparr>Width = 1920, Height = 1080, Numerator = 60, Denominator = 1\<rparr>]),
      ErrorMessage = (\<lambda>hr. [])\<rparr>"

definition failing :: "native_call \<Rightarrow> driver" where
  "failing c =
     one_gpu\<lparr>hresult_of := (\<lambda>h c'. if c' = c then E_FAIL else hresult_of one_gpu h c'),
             out_ptr := (\<lambda>h c'. c' \<noteq> c \<and> out_ptr one_gpu h c')\<rparr>"

fun completed_at_wait :: "native_call list \<Rightarrow> 64 word \<Rightarrow> 64 word \<Rightarrow> 64 word" where
  "completed_at_wait [] v c = c"
| "completed_at_wait (Signal x # h) v c = completed_at_wait h x c"
| "completed_at_wait (WaitForSingleObject # h) v c = completed_at_wait h v v"
| "completed_at_wait (a # h) v c = completed_at_wait h v c"

definition armed_value :: "native_call list \<Rightarrow> 64 word option" where
  "armed_value h =
     (case rev h of
        WaitForSingleObject # SetEventOnCompletion v # h' \<Rightarrow> Some v
      | _ \<Rightarrow> None)"

definition lagging_gpu :: driver where
  "lagging_gpu =
     one_gpu\<lparr>completed_value := (\<lambda>h. completed_at_wait h 0 0),
             wait_returns := (\<lambda>h. case armed_value h of
                                     Some v \<Rightarrow> v \<le> last_signal h 0
                                   | None \<Rightarrow> False)\<rparr>"

text \<open>
  The contract of the native fence, which is no code of the repository: a wait without
  timeout on the event that a successful \<open>SetEventOnCompletion v\<close> has armed returns
  only when the fence's completed value has reached \<open>v\<close>. A statement that needs it
  has it as a hypothesis.
\<close>

definition fence_contract :: "driver \<Rightarrow> bool" where
  "fence_contract drv =
     (\<forall>h v. \<not> FAILED (hresult_of drv h (SetEventOnCompletion v))
              \<and> wait_returns drv (h @ [SetEventOnCompletion v, WaitForSingleObject])
            \<longrightarrow> v \<le> completed_value drv (h @ [SetEventOnCompletion v, WaitForSingleObject]))"

definition cfg_lines :: "string list \<Rightarrow> cfg_file" where
  "cfg_lines ls = \<lparr>lines_of = Some ls, badbit = False, failbit = False, strerror = []\<rparr>"

definition cfg_missing :: cfg_file where
  "cfg_missing = \<lparr>lines_of = None, badbit = False, failbit = True,
                  strerror = ''No such file or directory''\<rparr>"

text \<open>The range of the back-buffer index, as the specification states it.\<close>

definition back_buffer_in_range :: "DirectX \<Rightarrow> bool" where
  "back_buffer_in_range s = (0 \<le> mCurrBackBuffer s \<and> mCurrBackBuffer s < SwapChainBufferCount)"

subsection \<open>Notions used by the proofs\<close>

text \<open>
  \<open>good_line\<close>: a line that does not make \<open>loadConfig\<close> return early. \<open>ready\<close>: an
  instance on which \<open>render\<close> goes through no null pointer. \<open>post m Q\<close>: if the call
  \<open>m\<close> returns, what it returns satisfies \<open>Q\<close>.
\<close>

definition good_line :: "string \<Rightarrow> bool" where
  "good_line l = (is_api_line l \<longrightarrow> recognised (api_value l))"

definition ready :: "DirectX \<Rightarrow> bool" where
  "ready s = (md3dDevice s \<and> mSwapChain s \<and> mDirectCmdListAlloc s \<and> mCommandList s
     \<and> mCommandQueue s \<and> mFence s \<and> mRtvHeap s \<and> mDsvHeap s
     \<and> 0 \<le> mCurrBackBuffer s \<and> mCurrBackBuffer s < 2)"

definition post :: "'a option \<Rightarrow> ('a \<Rightarrow> bool) \<Rightarrow> bool" where
  "post m Q = (case m of None \<Rightarrow> True | Some x \<Rightarrow> Q x)"

section \<open>Evaluating the model on examples\<close>

text \<open>The definitions to unfold when an operation is run on a concrete machine.\<close>

lemmas directx_defs = initialiseDXGI_def getAdapter_def getOutput_def initialiseD3D12_def initialiseFence_def
  cacheDescriptorSizes_def initialiseCommandObjects_def initialiseSwapChain_def
  initialiseRtvAndDsvDescriptorHeaps_def flushCommandQueue_def DirectX_initialise_def
  native_def native_out_def deref_def mkResult_def FAILED_def S_OK_def E_FAIL_def DXGI_ERROR_NOT_FOUND_def
  DirectX_new_def one_gpu_def failing_def Let_def

lemmas string_defs = find_str_def substr_after_colon_def extract_word_def isspace_def
  to_string_def digits.simps

lemmas facade_defs = SyrenRender_initialise_def SyrenRender_new_def select_api_def assign_API_def
  loadConfig_def cfg_lines_def cfg_missing_def isInitialised_def

lemmas run_defs = DirectX_onResize_def DirectX_render_def DepthStencilView_def CurrentBackBuffer_def
  CurrentBackBufferView_def c_rem_def SwapChainBufferCount_def

section \<open>The initialisation sequence (C1)\<close>

lemma run_in_order_shape:
  "run_in_order steps s = Some (rs, s') \<Longrightarrow>
     list_all is_successfull (butlast rs) \<and>
     (list_all is_successfull rs \<longrightarrow>
        length rs = length (filter (\<lambda>st. case st of Checked f \<Rightarrow> True | Unchecked g \<Rightarrow> False) steps)) \<and>
     (\<not> list_all is_successfull rs \<longrightarrow> rs \<noteq> [] \<and> \<not> is_successfull (last rs))"
proof (induction steps s arbitrary: rs s' rule: run_in_order.induct)
  case (1 s)
  then show ?case by simp
next
  case (2 g steps s)
  then show ?case by (auto split: option.splits)
next
  case (3 f steps s)
  then show ?case
    by (auto split: option.splits prod.splits if_splits)
qed

lemma initialise_refines:
  "DirectX_initialise drv s =
     (case run_in_order (initialise_sequence drv) s of
        None \<Rightarrow> None
      | Some (rs, s') \<Rightarrow>
          if list_all is_successfull rs
          then Some (mkResult True SSUCCESS (initialise_message rs), s')
          else Some (last rs, s'))"
  by (simp add: DirectX_initialise_def initialise_sequence_def initialise_message_def
       split: bind_split option.split prod.split)

text \<open>The native calls each step makes when it succeeds.\<close>

lemma initialiseDXGI_calls:
  "initialiseDXGI drv s = Some (r, s') \<Longrightarrow>
     calls s' = calls s @ [CreateDXGIFactory1]
     \<and> mClientWidth s' = mClientWidth s \<and> mClientHeight s' = mClientHeight s"
  by (auto simp: initialiseDXGI_def native_out_def Let_def split: if_splits)

lemma initialiseD3D12_calls:
  "initialiseD3D12 drv s = Some (r, s') \<Longrightarrow> is_successfull r \<Longrightarrow>
     (calls s' = calls s @ [EnumAdapterByGpuPreference 0, D3D12CreateDevice]
      \<or> calls s' = calls s @ [EnumAdapterByGpuPreference 0, D3D12CreateDevice,
                               Adapter_Release, EnumWarpAdapter, D3D12CreateDevice])
     \<and> mClientWidth s' = mClientWidth s \<and> mClientHeight s' = mClientHeight s"
  by (auto simp: initialiseD3D12_def getAdapter_def native_out_def native_def deref_def Let_def mkResult_def
        split: if_splits bind_splits)

lemma initialiseFence_calls:
  "initialiseFence drv s = Some (r, s') \<Longrightarrow>
     calls s' = calls s @ [CreateFence]
     \<and> mClientWidth s' = mClientWidth s \<and> mClientHeight s' = mClientHeight s"
  by (auto simp: initialiseFence_def native_out_def deref_def Let_def split: if_splits bind_splits)

lemma cacheDescriptorSizes_calls:
  "cacheDescriptorSizes drv s = Some s' \<Longrightarrow>
     calls s' = calls s @ [GetDescriptorHandleIncrementSize RTV, GetDescriptorHandleIncrementSize DSV,
                          GetDescriptorHandleIncrementSize CBV_SRV_UAV]
     \<and> mClientWidth s' = mClientWidth s \<and> mClientHeight s' = mClientHeight s"
  by (auto simp: cacheDescriptorSizes_def native_def deref_def Let_def split: if_splits bind_splits)

lemma initialiseCommandObjects_calls:
  "initialiseCommandObjects drv s = Some (r, s') \<Longrightarrow> is_successfull r \<Longrightarrow>
     calls s' = calls s @ [CreateCommandQueue, CreateCommandAllocator, CreateCommandList, CommandList_Close]
     \<and> mClientWidth s' = mClientWidth s \<and> mClientHeight s' = mClientHeight s"
  by (auto simp: initialiseCommandObjects_def native_out_def native_def deref_def Let_def mkResult_def
        split: if_splits bind_splits)

lemma initialiseSwapChain_calls:
  "initialiseSwapChain drv n d s = Some (r, s') \<Longrightarrow>
     calls s' = calls s @ [CreateSwapChain (mClientWidth s) (mClientHeight s) n d]
     \<and> mClientWidth s' = mClientWidth s \<and> mClientHeight s' = mClientHeight s"
  by (auto simp: initialiseSwapChain_def native_out_def deref_def Let_def split: if_splits bind_splits)

lemma initialiseRtvAndDsvDescriptorHeaps_calls:
  "initialiseRtvAndDsvDescriptorHeaps drv s = Some (r, s') \<Longrightarrow> is_successfull r \<Longrightarrow>
     calls s' = calls s @ [CreateDescriptorHeap RTV, CreateDescriptorHeap DSV]
     \<and> mClientWidth s' = mClientWidth s \<and> mClientHeight s' = mClientHeight s"
  by (auto simp: initialiseRtvAndDsvDescriptorHeaps_def native_out_def deref_def Let_def mkResult_def
        split: if_splits bind_splits)

lemma initialise_calls:
  assumes ret: "DirectX_initialise drv s = Some (r, s')" and ok: "is_successfull r"
  shows "\<exists>warp. (warp = [] \<or> warp = warp_calls) \<and>
     calls s' = calls s @ [CreateDXGIFactory1, EnumAdapterByGpuPreference 0, D3D12CreateDevice] @ warp
       @ [CreateFence,
          GetDescriptorHandleIncrementSize RTV, GetDescriptorHandleIncrementSize DSV,
          GetDescriptorHandleIncrementSize CBV_SRV_UAV,
          CreateCommandQueue, CreateCommandAllocator, CreateCommandList, CommandList_Close,
          CreateSwapChain (mClientWidth s) (mClientHeight s) 60 1,
          CreateDescriptorHeap RTV, CreateDescriptorHeap DSV]"
proof -
  from ret ok obtain r1 s1 r2 s2 r3 s3 s4 r5 s5 r6 s6 r7 where
    1: "initialiseDXGI drv s = Some (r1, s1)" "is_successfull r1" and
    2: "initialiseD3D12 drv s1 = Some (r2, s2)" "is_successfull r2" and
    3: "initialiseFence drv s2 = Some (r3, s3)" "is_successfull r3" and
    4: "cacheDescriptorSizes drv s3 = Some s4" and
    5: "initialiseCommandObjects drv s4 = Some (r5, s5)" "is_successfull r5" and
    6: "initialiseSwapChain drv 60 1 s5 = Some (r6, s6)" "is_successfull r6" and
    7: "initialiseRtvAndDsvDescriptorHeaps drv s6 = Some (r7, s')" "is_successfull r7"
    by (auto simp: DirectX_initialise_def Let_def split: bind_splits if_splits)
  note c1 = initialiseDXGI_calls [OF 1(1)]
  note c2 = initialiseD3D12_calls [OF 2]
  note c3 = initialiseFence_calls [OF 3(1)]
  note c4 = cacheDescriptorSizes_calls [OF 4]
  note c5 = initialiseCommandObjects_calls [OF 5]
  note c6 = initialiseSwapChain_calls [OF 6(1)]
  note c7 = initialiseRtvAndDsvDescriptorHeaps_calls [OF 7]
  from c2 consider "calls s2 = calls s1 @ [EnumAdapterByGpuPreference 0, D3D12CreateDevice]"
    | "calls s2 = calls s1 @ [EnumAdapterByGpuPreference 0, D3D12CreateDevice,
                               Adapter_Release, EnumWarpAdapter, D3D12CreateDevice]"
    by blast
  then show ?thesis
  proof cases
    case 1
    with c1 c2 c3 c4 c5 c6 c7 show ?thesis
      by (intro exI [of _ "[]"]) simp
  next
    case 2
    with c1 c2 c3 c4 c5 c6 c7 show ?thesis
      by (intro exI [of _ warp_calls]) (simp add: warp_calls_def)
  qed
qed


text \<open>
  C1. \<open>DirectX::initialise\<close> performs its steps in one fixed order: DXGI factory, D3D12
  device, fence, descriptor sizes, command objects, swap chain at refresh rate 60/1,
  descriptor heaps. It is the run of \<open>initialise_sequence\<close> in order: the first
  unsuccessful result is returned as it is and no later step is performed, and the
  result is successful exactly when all six checked steps were performed and succeeded.
  A successful \<open>initialise\<close> has made exactly the native calls of the steps, in that
  order.
\<close>

theorem initialise_in_order:
  "DirectX_initialise drv s =
     (case run_in_order (initialise_sequence drv) s of
        None \<Rightarrow> None
      | Some (rs, s') \<Rightarrow>
          if list_all is_successfull rs
          then Some (mkResult True SSUCCESS (initialise_message rs), s')
          else Some (last rs, s'))
   \<and> (\<forall>r s'. DirectX_initialise drv s = Some (r, s') \<longrightarrow>
         (\<exists>rs. run_in_order (initialise_sequence drv) s = Some (rs, s')
            \<and> rs \<noteq> [] \<and> list_all is_successfull (butlast rs)
            \<and> (is_successfull r \<longleftrightarrow> length rs = 6 \<and> list_all is_successfull rs)
            \<and> (\<not> is_successfull r \<longrightarrow> r = last rs)))
   \<and> (\<forall>r s'. DirectX_initialise drv s = Some (r, s') \<and> is_successfull r \<longrightarrow>
         (\<exists>warp. (warp = [] \<or> warp = warp_calls) \<and>
            calls s' = calls s @ [CreateDXGIFactory1, EnumAdapterByGpuPreference 0, D3D12CreateDevice]
              @ warp
              @ [CreateFence,
                 GetDescriptorHandleIncrementSize RTV, GetDescriptorHandleIncrementSize DSV,
                 GetDescriptorHandleIncrementSize CBV_SRV_UAV,
                 CreateCommandQueue, CreateCommandAllocator, CreateCommandList, CommandList_Close,
                 CreateSwapChain (mClientWidth s) (mClientHeight s) 60 1,
                 CreateDescriptorHeap RTV, CreateDescriptorHeap DSV]))"
proof -
  have a: "DirectX_initialise drv s =
     (case run_in_order (initialise_sequence drv) s of
        None \<Rightarrow> None
      | Some (rs, s') \<Rightarrow>
          if list_all is_successfull rs
          then Some (mkResult True SSUCCESS (initialise_message rs), s')
          else Some (last rs, s'))"
    by (rule initialise_refines)
  have b: "\<forall>r s'. DirectX_initialise drv s = Some (r, s') \<longrightarrow>
         (\<exists>rs. run_in_order (initialise_sequence drv) s = Some (rs, s')
            \<and> rs \<noteq> [] \<and> list_all is_successfull (butlast rs)
            \<and> (is_successfull r \<longleftrightarrow> length rs = 6 \<and> list_all is_successfull rs)
            \<and> (\<not> is_successfull r \<longrightarrow> r = last rs))"
  proof (intro allI impI)
    fix r s'
    assume ret: "DirectX_initialise drv s = Some (r, s')"
    then obtain rs where run: "run_in_order (initialise_sequence drv) s = Some (rs, s')"
      and r: "r = (if list_all is_successfull rs
                   then mkResult True SSUCCESS (initialise_message rs) else last rs)"
      by (auto simp: initialise_refines split: option.splits if_splits)
    have n: "length (filter (\<lambda>st. case st of Checked f \<Rightarrow> True | Unchecked g \<Rightarrow> False)
               (initialise_sequence drv)) = 6"
      by (simp add: initialise_sequence_def)
    from run_in_order_shape [OF run] n
    have shape: "list_all is_successfull (butlast rs)"
      "list_all is_successfull rs \<Longrightarrow> length rs = 6"
      "\<not> list_all is_successfull rs \<Longrightarrow> rs \<noteq> [] \<and> \<not> is_successfull (last rs)"
      by auto
    have ne: "rs \<noteq> []"
      using shape(2,3) by (cases "list_all is_successfull rs") auto
    show "\<exists>rs. run_in_order (initialise_sequence drv) s = Some (rs, s')
              \<and> rs \<noteq> [] \<and> list_all is_successfull (butlast rs)
              \<and> (is_successfull r \<longleftrightarrow> length rs = 6 \<and> list_all is_successfull rs)
              \<and> (\<not> is_successfull r \<longrightarrow> r = last rs)"
      using run r shape ne by (intro exI [of _ rs]) (auto simp: mkResult_def)
  qed
  have c: "\<forall>r s'. DirectX_initialise drv s = Some (r, s') \<and> is_successfull r \<longrightarrow>
         (\<exists>warp. (warp = [] \<or> warp = warp_calls) \<and>
            calls s' = calls s @ [CreateDXGIFactory1, EnumAdapterByGpuPreference 0, D3D12CreateDevice]
              @ warp
              @ [CreateFence,
                 GetDescriptorHandleIncrementSize RTV, GetDescriptorHandleIncrementSize DSV,
                 GetDescriptorHandleIncrementSize CBV_SRV_UAV,
                 CreateCommandQueue, CreateCommandAllocator, CreateCommandList, CommandList_Close,
                 CreateSwapChain (mClientWidth s) (mClientHeight s) 60 1,
                 CreateDescriptorHeap RTV, CreateDescriptorHeap DSV])"
    using initialise_calls [of drv s] by blast
  show ?thesis by (rule conjI [OF a conjI [OF b c]])
qed

text \<open>
  On the example machine the calls arrive in the order of the steps; when the fence
  cannot be created the run ends with that step's result, after three checked steps.
\<close>

theorem initialise_in_order_witness:
  "map_option (\<lambda>(r, s). (is_successfull r, result r, calls s))
       (DirectX_initialise one_gpu (DirectX_new 0)) =
     Some (True, SSUCCESS,
       [CreateDXGIFactory1, EnumAdapterByGpuPreference 0, D3D12CreateDevice, CreateFence,
        GetDescriptorHandleIncrementSize RTV, GetDescriptorHandleIncrementSize DSV,
        GetDescriptorHandleIncrementSize CBV_SRV_UAV,
        CreateCommandQueue, CreateCommandAllocator, CreateCommandList, CommandList_Close,
        CreateSwapChain 800 600 60 1, CreateDescriptorHeap RTV, CreateDescriptorHeap DSV])
   \<and> map_option (\<lambda>(r, s). (r, calls s))
       (DirectX_initialise (failing CreateFence) (DirectX_new 0)) =
     Some (mkResult False FAIL ''Failed to create a fence object.'',
       [CreateDXGIFactory1, EnumAdapterByGpuPreference 0, D3D12CreateDevice, CreateFence])
   \<and> map_option (\<lambda>(rs, s). map is_successfull rs)
       (run_in_order (initialise_sequence (failing CreateFence)) (DirectX_new 0)) =
     Some [True, True, False]"
  using initialise_in_order [of "failing CreateFence" "DirectX_new 0"]
  by (simp add: directx_defs initialise_sequence_def)

section \<open>What each member function leaves unchanged\<close>

lemmas call_defs = native_def native_out_def deref_def Let_def mkResult_def wf_result_def

lemma initialiseDXGI_frame:
  "initialiseDXGI drv s = Some (r, s') \<Longrightarrow>
     wf_result r \<and> mCurrBackBuffer s' = mCurrBackBuffer s \<and> mCurrentFence s' = mCurrentFence s"
  by (auto simp: initialiseDXGI_def call_defs split: if_splits)

lemma getAdapter_frame:
  "getAdapter drv i s = Some (r, p, s') \<Longrightarrow>
     wf_result r \<and> mCurrBackBuffer s' = mCurrBackBuffer s \<and> mCurrentFence s' = mCurrentFence s"
  by (auto simp: getAdapter_def call_defs split: if_splits bind_splits)

lemma initialiseD3D12_frame:
  "initialiseD3D12 drv s = Some (r, s') \<Longrightarrow>
     wf_result r \<and> mCurrBackBuffer s' = mCurrBackBuffer s \<and> mCurrentFence s' = mCurrentFence s"
  by (auto simp: initialiseD3D12_def call_defs dest!: getAdapter_frame split: if_splits bind_splits)

lemma initialiseFence_frame:
  "initialiseFence drv s = Some (r, s') \<Longrightarrow>
     wf_result r \<and> mCurrBackBuffer s' = mCurrBackBuffer s \<and> mCurrentFence s' = mCurrentFence s"
  by (auto simp: initialiseFence_def call_defs split: if_splits bind_splits)

lemma cacheDescriptorSizes_frame:
  "cacheDescriptorSizes drv s = Some s' \<Longrightarrow>
     mCurrBackBuffer s' = mCurrBackBuffer s \<and> mCurrentFence s' = mCurrentFence s"
  by (auto simp: cacheDescriptorSizes_def call_defs split: if_splits bind_splits)

lemma checkMultisampling_frame:
  "checkMultisampling drv s = Some (r, s') \<Longrightarrow>
     wf_result r \<and> mCurrBackBuffer s' = mCurrBackBuffer s \<and> mCurrentFence s' = mCurrentFence s"
  by (auto simp: checkMultisampling_def call_defs split: if_splits bind_splits)

lemma initialiseCommandObjects_frame:
  "initialiseCommandObjects drv s = Some (r, s') \<Longrightarrow>
     wf_result r \<and> mCurrBackBuffer s' = mCurrBackBuffer s \<and> mCurrentFence s' = mCurrentFence s"
  by (auto simp: initialiseCommandObjects_def call_defs split: if_splits bind_splits)

lemma initialiseSwapChain_frame:
  "initialiseSwapChain drv n d s = Some (r, s') \<Longrightarrow>
     wf_result r \<and> mCurrBackBuffer s' = mCurrBackBuffer s \<and> mCurrentFence s' = mCurrentFence s"
  by (auto simp: initialiseSwapChain_def call_defs split: if_splits bind_splits)

lemma initialiseRtvAndDsvDescriptorHeaps_frame:
  "initialiseRtvAndDsvDescriptorHeaps drv s = Some (r, s') \<Longrightarrow>
     wf_result r \<and> mCurrBackBuffer s' = mCurrBackBuffer s \<and> mCurrentFence s' = mCurrentFence s"
  by (auto simp: initialiseRtvAndDsvDescriptorHeaps_def call_defs split: if_splits bind_splits)

lemma getOutput_frame:
  "getOutput drv a b p s = Some (r, p', s') \<Longrightarrow>
     wf_result r \<and> mCurrBackBuffer s' = mCurrBackBuffer s \<and> mCurrentFence s' = mCurrentFence s"
  by (auto simp: getOutput_def call_defs dest!: getAdapter_frame split: if_splits bind_splits)

lemma flushCommandQueue_frame:
  "flushCommandQueue drv s = Some (r, s') \<Longrightarrow>
     wf_result r \<and> mCurrBackBuffer s' = mCurrBackBuffer s \<and> mCurrentFence s' = mCurrentFence s + 1"
  by (auto simp: flushCommandQueue_def call_defs split: if_splits bind_splits)

lemma flushCommandQueue_success:
  "flushCommandQueue drv s = Some (r, s') \<Longrightarrow> is_successfull r \<Longrightarrow>
     (calls s' = calls s @ [Signal (mCurrentFence s'), GetCompletedValue]
        \<and> mCurrentFence s' \<le> completed_value drv (calls s'))
     \<or> (calls s' = calls s @ [Signal (mCurrentFence s'), GetCompletedValue, CreateEventEx,
                          SetEventOnCompletion (mCurrentFence s'), WaitForSingleObject, CloseHandle]
        \<and> completed_value drv (calls s @ [Signal (mCurrentFence s'), GetCompletedValue]) < mCurrentFence s'
        \<and> \<not> FAILED (hresult_of drv (calls s @ [Signal (mCurrentFence s'), GetCompletedValue, CreateEventEx])
                     (SetEventOnCompletion (mCurrentFence s')))
        \<and> wait_returns drv (butlast (calls s')))"
  by (auto simp: flushCommandQueue_def call_defs butlast_append split: if_splits bind_splits)

lemma flushCommandQueue_reached:
  assumes f: "flushCommandQueue drv s = Some (r, s')" and ok: "is_successfull r"
    and c: "fence_contract drv"
  shows "\<exists>h. prefix (calls s) h \<and> prefix h (calls s') \<and> mCurrentFence s' \<le> completed_value drv h"
proof -
  let ?v = "mCurrentFence s'"
  let ?h = "calls s @ [Signal ?v, GetCompletedValue, CreateEventEx]"
  from flushCommandQueue_success [OF f ok] consider
      (read) "calls s' = calls s @ [Signal ?v, GetCompletedValue]"
        "?v \<le> completed_value drv (calls s')"
    | (waited) "calls s' = ?h @ [SetEventOnCompletion ?v, WaitForSingleObject, CloseHandle]"
        "\<not> FAILED (hresult_of drv ?h (SetEventOnCompletion ?v))"
        "wait_returns drv (?h @ [SetEventOnCompletion ?v, WaitForSingleObject])"
    by (auto simp: butlast_append)
  then show ?thesis
  proof cases
    case read
    then have "prefix (calls s) (calls s') \<and> prefix (calls s') (calls s')
        \<and> ?v \<le> completed_value drv (calls s')"
      by simp
    then show ?thesis by (rule exI)
  next
    case waited
    from c waited(2,3)
    have "?v \<le> completed_value drv (?h @ [SetEventOnCompletion ?v, WaitForSingleObject])"
      unfolding fence_contract_def by blast
    with waited(1)
    have "prefix (calls s) (?h @ [SetEventOnCompletion ?v, WaitForSingleObject])
        \<and> prefix (?h @ [SetEventOnCompletion ?v, WaitForSingleObject]) (calls s')
        \<and> ?v \<le> completed_value drv (?h @ [SetEventOnCompletion ?v, WaitForSingleObject])"
      by simp
    then show ?thesis by (rule exI)
  qed
qed

lemma run_in_order_frame:
  assumes run: "run_in_order steps s = Some (rs, s')"
    and chk: "\<And>f t r t'. Checked f \<in> set steps \<Longrightarrow> f t = Some (r, t') \<Longrightarrow>
      wf_result r \<and> mCurrBackBuffer t' = mCurrBackBuffer t \<and> mCurrentFence t' = mCurrentFence t"
    and unchk: "\<And>g t t'. Unchecked g \<in> set steps \<Longrightarrow> g t = Some t' \<Longrightarrow>
      mCurrBackBuffer t' = mCurrBackBuffer t \<and> mCurrentFence t' = mCurrentFence t"
  shows "list_all wf_result rs \<and> mCurrBackBuffer s' = mCurrBackBuffer s \<and> mCurrentFence s' = mCurrentFence s"
  using run chk unchk
proof (induction steps s arbitrary: rs s' rule: run_in_order.induct)
  case (1 s)
  from "1.prems"(1) show ?case by simp
next
  case (2 g steps s)
  from "2.prems"(1) obtain s1 where g: "g s = Some s1" and run1: "run_in_order steps s1 = Some (rs, s')"
    by (auto split: option.splits)
  have step: "mCurrBackBuffer s1 = mCurrBackBuffer s \<and> mCurrentFence s1 = mCurrentFence s"
    by (rule "2.prems"(3) [of g s s1]) (simp_all add: g)
  have rest: "list_all wf_result rs \<and> mCurrBackBuffer s' = mCurrBackBuffer s1 \<and> mCurrentFence s' = mCurrentFence s1"
  proof (rule "2.IH" [OF g run1])
    fix f t r t'
    assume "Checked f \<in> set steps" and "f t = Some (r, t')"
    then show "wf_result r \<and> mCurrBackBuffer t' = mCurrBackBuffer t \<and> mCurrentFence t' = mCurrentFence t"
      by (intro "2.prems"(2) [of f t r t']) simp_all
  next
    fix h t t'
    assume "Unchecked h \<in> set steps" and "h t = Some t'"
    then show "mCurrBackBuffer t' = mCurrBackBuffer t \<and> mCurrentFence t' = mCurrentFence t"
      by (intro "2.prems"(3) [of h t t']) simp_all
  qed
  from step rest show ?case by simp
next
  case (3 f steps s)
  from "3.prems"(1) obtain r s1 where f: "f s = Some (r, s1)"
    by (auto split: option.splits)
  have fr: "wf_result r \<and> mCurrBackBuffer s1 = mCurrBackBuffer s \<and> mCurrentFence s1 = mCurrentFence s"
    by (rule "3.prems"(2) [of f s r s1]) (simp_all add: f)
  show ?case
  proof (cases "is_successfull r")
    case False
    with "3.prems"(1) f have "rs = [r]" and "s' = s1" by simp_all
    with fr show ?thesis by simp
  next
    case True
    with "3.prems"(1) f obtain rs1 where run1: "run_in_order steps s1 = Some (rs1, s')" and rs: "rs = r # rs1"
      by (auto split: option.splits)
    have rest: "list_all wf_result rs1 \<and> mCurrBackBuffer s' = mCurrBackBuffer s1 \<and> mCurrentFence s' = mCurrentFence s1"
    proof (rule "3.IH" [OF f _ True run1])
      show "(r, s1) = (r, s1)" by simp
    next
      fix f' t r' t'
      assume "Checked f' \<in> set steps" and "f' t = Some (r', t')"
      then show "wf_result r' \<and> mCurrBackBuffer t' = mCurrBackBuffer t \<and> mCurrentFence t' = mCurrentFence t"
        by (intro "3.prems"(2) [of f' t r' t']) simp_all
    next
      fix h t t'
      assume "Unchecked h \<in> set steps" and "h t = Some t'"
      then show "mCurrBackBuffer t' = mCurrBackBuffer t \<and> mCurrentFence t' = mCurrentFence t"
        by (intro "3.prems"(3) [of h t t']) simp_all
    qed
    from fr rest rs show ?thesis by simp
  qed
qed

lemma DirectX_initialise_frame:
  assumes "DirectX_initialise drv s = Some (r, s')"
  shows "wf_result r \<and> mCurrBackBuffer s' = mCurrBackBuffer s \<and> mCurrentFence s' = mCurrentFence s"
proof -
  from assms obtain rs where run: "run_in_order (initialise_sequence drv) s = Some (rs, s')"
    and r: "r = (if list_all is_successfull rs
                 then mkResult True SSUCCESS (initialise_message rs) else last rs)"
    by (auto simp: initialise_refines split: option.splits if_splits)
  have fr: "list_all wf_result rs \<and> mCurrBackBuffer s' = mCurrBackBuffer s \<and> mCurrentFence s' = mCurrentFence s"
  proof (rule run_in_order_frame [OF run])
    fix f t r t'
    assume mem: "Checked f \<in> set (initialise_sequence drv)" and ft: "f t = Some (r, t')"
    from mem consider "f = initialiseDXGI drv" | "f = initialiseD3D12 drv" | "f = initialiseFence drv"
      | "f = initialiseCommandObjects drv" | "f = initialiseSwapChain drv 60 1"
      | "f = initialiseRtvAndDsvDescriptorHeaps drv"
      unfolding initialise_sequence_def by force
    then show "wf_result r \<and> mCurrBackBuffer t' = mCurrBackBuffer t \<and> mCurrentFence t' = mCurrentFence t"
    proof cases
      case 1 with ft show ?thesis by (simp add: initialiseDXGI_frame)
    next
      case 2 with ft show ?thesis by (simp add: initialiseD3D12_frame)
    next
      case 3 with ft show ?thesis by (simp add: initialiseFence_frame)
    next
      case 4 with ft show ?thesis by (simp add: initialiseCommandObjects_frame)
    next
      case 5 with ft show ?thesis by (simp add: initialiseSwapChain_frame)
    next
      case 6 with ft show ?thesis by (simp add: initialiseRtvAndDsvDescriptorHeaps_frame)
    qed
  next
    fix g t t'
    assume mem: "Unchecked g \<in> set (initialise_sequence drv)" and gt: "g t = Some t'"
    from mem have "g = cacheDescriptorSizes drv"
      unfolding initialise_sequence_def by force
    with gt show "mCurrBackBuffer t' = mCurrBackBuffer t \<and> mCurrentFence t' = mCurrentFence t"
      by (simp add: cacheDescriptorSizes_frame)
  qed
  have "wf_result r"
  proof (cases "list_all is_successfull rs")
    case True
    with r show ?thesis by (simp add: mkResult_def wf_result_def)
  next
    case False
    then have "rs \<noteq> []" by auto
    then have "last rs \<in> set rs" by simp
    with fr have "wf_result (last rs)" by (auto simp: list_all_iff)
    with False r show ?thesis by simp
  qed
  with fr show ?thesis by simp
qed

lemma onResize_buffers_frame_aux:
  "(\<forall>r. fst (onResize_buffers drv is s) = Some r \<longrightarrow> wf_result r \<and> \<not> is_successfull r)
     \<and> mCurrBackBuffer (snd (onResize_buffers drv is s)) = mCurrBackBuffer s
     \<and> mCurrentFence (snd (onResize_buffers drv is s)) = mCurrentFence s
     \<and> md3dDevice (snd (onResize_buffers drv is s)) = md3dDevice s
     \<and> mDsvHeap (snd (onResize_buffers drv is s)) = mDsvHeap s
     \<and> mCommandQueue (snd (onResize_buffers drv is s)) = mCommandQueue s
     \<and> mCommandList (snd (onResize_buffers drv is s)) = mCommandList s
     \<and> mFence (snd (onResize_buffers drv is s)) = mFence s"
  by (induction "is" arbitrary: s)
     (auto simp: native_def native_out_def Let_def mkResult_def wf_result_def)

lemma onResize_buffers_frame:
  "onResize_buffers drv is s = (ro, s') \<Longrightarrow>
     (\<forall>r. ro = Some r \<longrightarrow> wf_result r \<and> \<not> is_successfull r)
     \<and> mCurrBackBuffer s' = mCurrBackBuffer s \<and> mCurrentFence s' = mCurrentFence s
     \<and> md3dDevice s' = md3dDevice s \<and> mDsvHeap s' = mDsvHeap s \<and> mCommandQueue s' = mCommandQueue s
     \<and> mCommandList s' = mCommandList s \<and> mFence s' = mFence s"
  using onResize_buffers_frame_aux [of drv "is" s] by simp

lemma post_Some: "post (Some x) Q = Q x"
  by (simp add: post_def)

lemma post_None: "post None Q = True"
  by (simp add: post_def)

lemma post_bind: "post (m \<bind> f) Q = post m (\<lambda>x. post (f x) Q)"
  by (cases m) (simp_all add: post_def)

lemma post_if: "post (if c then a else b) Q = ((c \<longrightarrow> post a Q) \<and> (\<not> c \<longrightarrow> post b Q))"
  by simp

lemma post_deref: "post (deref p) Q = (p \<longrightarrow> Q ())"
  by (simp add: post_def deref_def)

lemma post_case_prod: "post (case p of (a, b) \<Rightarrow> f a b) Q = post (f (fst p) (snd p)) Q"
  by (simp add: case_prod_beta)

lemma post_case_option:
  "post (case x of None \<Rightarrow> a | Some y \<Rightarrow> b y) Q = ((x = None \<longrightarrow> post a Q) \<and> (\<forall>y. x = Some y \<longrightarrow> post (b y) Q))"
  by (cases x) simp_all

lemma postD: "post m Q \<Longrightarrow> m = Some x \<Longrightarrow> Q x"
  by (simp add: post_def)

lemma postI: "(\<And>x. m = Some x \<Longrightarrow> Q x) \<Longrightarrow> post m Q"
  by (cases m) (simp_all add: post_def)

lemmas post_simps = post_Some post_None post_bind post_if post_deref post_case_prod post_case_option

lemma post_flush:
  "(\<And>r s'. wf_result r \<Longrightarrow> mCurrBackBuffer s' = mCurrBackBuffer s \<Longrightarrow>
       mCurrentFence s' = mCurrentFence s + 1 \<Longrightarrow> Q (r, s'))
   \<Longrightarrow> post (flushCommandQueue drv s) Q"
  by (rule postI) (auto dest!: flushCommandQueue_frame)

lemma DirectX_render_post:
  "post (DirectX_render drv s) (\<lambda>(r, s').
     wf_result r
     \<and> (mCurrBackBuffer s' = mCurrBackBuffer s \<or>
          0 \<le> mCurrBackBuffer s \<and> mCurrBackBuffer s < 2 \<and> mCurrBackBuffer s' = (mCurrBackBuffer s + 1) mod 2)
     \<and> (is_successfull r \<longrightarrow>
          0 \<le> mCurrBackBuffer s \<and> mCurrBackBuffer s < 2 \<and> mCurrBackBuffer s' = (mCurrBackBuffer s + 1) mod 2)
     \<and> (mCurrentFence s' = mCurrentFence s \<or> mCurrentFence s' = mCurrentFence s + 1))"
  apply (simp add: DirectX_render_def DepthStencilView_def CurrentBackBuffer_def CurrentBackBufferView_def
      c_rem_def SwapChainBufferCount_def native_def native_out_def Let_def post_simps
      mkResult_def wf_result_def)
  apply (intro impI conjI post_flush)
  apply simp_all
  done

lemma DirectX_onResize_post:
  "post (DirectX_onResize drv s) (\<lambda>(r, s').
     wf_result r
     \<and> (mCurrBackBuffer s' = mCurrBackBuffer s \<or> mCurrBackBuffer s' = 0)
     \<and> (is_successfull r \<longrightarrow> mCurrBackBuffer s' = 0)
     \<and> (mCurrentFence s' = mCurrentFence s + 1 \<or> mCurrentFence s' = mCurrentFence s + 2))"
  apply (simp add: DirectX_onResize_def post_bind post_deref)
  apply (intro impI post_flush)
  apply (simp add: DepthStencilView_def native_def native_out_def Let_def post_simps
      mkResult_def onResize_buffers_frame_aux del: onResize_buffers.simps)
  apply (intro impI conjI allI post_flush)
  apply (insert onResize_buffers_frame_aux)
  apply (simp_all add: wf_result_def del: onResize_buffers.simps)
  done

lemma getAdapters_loop_frame:
  assumes "getAdapters_loop drv i adapters s = Some y"
  shows "mCurrBackBuffer (snd y) = mCurrBackBuffer s \<and> mCurrentFence (snd y) = mCurrentFence s"
  using assms
proof (induction rule: getAdapters_loop.raw_induct [rotated 1, consumes 1, case_names step])
  case (step loop drv i adapters s y)
  show ?case
  proof (cases "hresult_of drv (calls s) (EnumAdapterByGpuPreference i) \<noteq> DXGI_ERROR_NOT_FOUND")
    case False
    with step.hyps show ?thesis
      by (auto simp: native_out_def deref_def split: bind_splits if_splits)
  next
    case True
    with step.hyps obtain a l s2 where rec: "loop drv a l s2 = Some y"
      and s2: "mCurrBackBuffer s2 = mCurrBackBuffer s \<and> mCurrentFence s2 = mCurrentFence s"
      by (auto simp: native_out_def native_def deref_def Let_def split: bind_splits if_splits)
    from step.IH [OF rec] s2 show ?thesis by simp
  qed
qed

lemma getOutputs_loop_frame:
  assumes "getOutputs_loop drv adapter i outputs s = Some y"
  shows "mCurrBackBuffer (snd y) = mCurrBackBuffer s \<and> mCurrentFence (snd y) = mCurrentFence s"
  using assms
proof (induction rule: getOutputs_loop.raw_induct [rotated 1, consumes 1, case_names step])
  case (step loop drv adapter i outputs s y)
  show ?case
  proof (cases "hresult_of drv (calls s) (EnumOutputs i) \<noteq> DXGI_ERROR_NOT_FOUND")
    case False
    with step.hyps show ?thesis
      by (auto simp: native_out_def deref_def split: bind_splits if_splits)
  next
    case True
    with step.hyps obtain p a l s2 where rec: "loop drv p a l s2 = Some y"
      and s2: "mCurrBackBuffer s2 = mCurrBackBuffer s \<and> mCurrentFence s2 = mCurrentFence s"
      by (auto simp: native_out_def native_def deref_def Let_def split: bind_splits if_splits)
    from step.IH [OF rec] s2 show ?thesis by simp
  qed
qed

lemma DirectX_getAdapters_frame:
  "DirectX_getAdapters drv adapters s = Some (r, l, s') \<Longrightarrow>
     wf_result r \<and> mCurrBackBuffer s' = mCurrBackBuffer s \<and> mCurrentFence s' = mCurrentFence s"
  by (auto simp: DirectX_getAdapters_def mkResult_def wf_result_def
        dest!: getAdapters_loop_frame split: bind_splits)

lemma DirectX_getOutputs_frame:
  "DirectX_getOutputs drv index outputs s = Some (r, l, s') \<Longrightarrow>
     wf_result r \<and> mCurrBackBuffer s' = mCurrBackBuffer s \<and> mCurrentFence s' = mCurrentFence s"
  by (auto simp: DirectX_getOutputs_def mkResult_def wf_result_def
        dest!: getOutputs_loop_frame getAdapter_frame split: bind_splits)

lemma DirectX_getDisplayModes_frame:
  "DirectX_getDisplayModes drv a b modes s = Some (r, l, s') \<Longrightarrow>
     wf_result r \<and> mCurrBackBuffer s' = mCurrBackBuffer s \<and> mCurrentFence s' = mCurrentFence s"
  by (auto simp: DirectX_getDisplayModes_def call_defs
        dest!: getOutput_frame split: bind_splits if_splits)

lemma DirectX_render_frame:
  "DirectX_render drv s = Some (r, s') \<Longrightarrow>
     wf_result r
     \<and> (mCurrBackBuffer s' = mCurrBackBuffer s \<or>
          0 \<le> mCurrBackBuffer s \<and> mCurrBackBuffer s < 2 \<and> mCurrBackBuffer s' = (mCurrBackBuffer s + 1) mod 2)
     \<and> (is_successfull r \<longrightarrow>
          0 \<le> mCurrBackBuffer s \<and> mCurrBackBuffer s < 2 \<and> mCurrBackBuffer s' = (mCurrBackBuffer s + 1) mod 2)
     \<and> (mCurrentFence s' = mCurrentFence s \<or> mCurrentFence s' = mCurrentFence s + 1)"
  using postD [OF DirectX_render_post, of drv s "(r, s')"] by simp

lemma DirectX_onResize_frame:
  "DirectX_onResize drv s = Some (r, s') \<Longrightarrow>
     wf_result r
     \<and> (mCurrBackBuffer s' = mCurrBackBuffer s \<or> mCurrBackBuffer s' = 0)
     \<and> (is_successfull r \<longrightarrow> mCurrBackBuffer s' = 0)
     \<and> (mCurrentFence s' = mCurrentFence s + 1 \<or> mCurrentFence s' = mCurrentFence s + 2)"
  using postD [OF DirectX_onResize_post, of drv s "(r, s')"] by simp

lemma DirectX_call_frame:
  assumes "DirectX_call drv op s = Some (r, s')"
  shows "wf_result r
     \<and> (0 \<le> mCurrBackBuffer s \<and> mCurrBackBuffer s < 2 \<longrightarrow> 0 \<le> mCurrBackBuffer s' \<and> mCurrBackBuffer s' < 2)
     \<and> (\<exists>k\<le>2. mCurrentFence s' = mCurrentFence s + of_nat k)"
proof (cases op)
  case Op_initialise
  with assms DirectX_initialise_frame [of drv s r s'] show ?thesis
    by (auto intro: exI [of _ 0])
next
  case Op_onResize
  with assms DirectX_onResize_frame [of drv s r s'] show ?thesis
    by (auto intro: exI [of _ 1] exI [of _ 2])
next
  case Op_render
  with assms DirectX_render_frame [of drv s r s'] show ?thesis
    by (auto intro: exI [of _ 0] exI [of _ 1])
next
  case Op_update
  with assms show ?thesis
    by (auto simp: DirectX_update_def mkResult_def wf_result_def intro: exI [of _ 0])
next
  case Op_destroy
  with assms show ?thesis
    by (auto simp: DirectX_destroy_def mkResult_def wf_result_def intro: exI [of _ 0])
next
  case (Op_getAdapters l)
  with assms show ?thesis
    by (auto dest!: DirectX_getAdapters_frame intro: exI [of _ 0])
next
  case (Op_getOutputs i l)
  with assms show ?thesis
    by (auto dest!: DirectX_getOutputs_frame intro: exI [of _ 0])
next
  case (Op_getDisplayModes a b l)
  with assms show ?thesis
    by (auto dest!: DirectX_getDisplayModes_frame intro: exI [of _ 0])
qed

lemma DirectX_run_frame:
  "DirectX_run ops s = Some s' \<Longrightarrow>
     (back_buffer_in_range s \<longrightarrow> back_buffer_in_range s')
     \<and> (\<exists>k\<le>2 * length ops. mCurrentFence s' = mCurrentFence s + of_nat k)"
proof (induction ops arbitrary: s)
  case Nil
  then show ?case by simp
next
  case (Cons a ops)
  obtain drv op where a: "a = (drv, op)" by (cases a)
  with Cons.prems obtain r s1 where c: "DirectX_call drv op s = Some (r, s1)"
    and run: "DirectX_run ops s1 = Some s'"
    by (auto split: option.splits)
  from DirectX_call_frame [OF c] obtain k1 where k1: "k1 \<le> 2" "mCurrentFence s1 = mCurrentFence s + of_nat k1"
    and b1: "back_buffer_in_range s \<longrightarrow> back_buffer_in_range s1"
    by (auto simp: back_buffer_in_range_def SwapChainBufferCount_def)
  from Cons.IH [OF run] obtain k2 where k2: "k2 \<le> 2 * length ops" "mCurrentFence s' = mCurrentFence s1 + of_nat k2"
    and b2: "back_buffer_in_range s1 \<longrightarrow> back_buffer_in_range s'"
    by auto
  have "k1 + k2 \<le> 2 * length (a # ops)" using k1(1) k2(1) by simp
  moreover have "mCurrentFence s' = mCurrentFence s + of_nat (k1 + k2)"
    using k1(2) k2(2) by simp
  ultimately show ?case using b1 b2 by blast
qed

lemma fence_no_wrap:
  fixes x :: "64 word"
  assumes "unat x + n < 2 ^ 64" and "k \<le> n"
  shows "x \<le> x + of_nat k"
proof -
  have "k < 2 ^ 64" using assms by simp
  then have "unat (of_nat k :: 64 word) = k"
    by (simp add: unat_of_nat)
  with assms show ?thesis
    by (simp add: no_olen_add_nat)
qed

section \<open>The example machine\<close>

lemma last_signal_append: "last_signal (h @ h') v = last_signal h' (last_signal h v)"
  by (induction h v rule: last_signal.induct) simp_all

lemma completed_at_wait_append:
  "completed_at_wait (h @ [WaitForSingleObject]) v c = last_signal h v"
  by (induction h v c rule: completed_at_wait.induct) simp_all

lemma armed_value_append:
  "armed_value (h @ [SetEventOnCompletion v, WaitForSingleObject]) = Some v"
  by (simp add: armed_value_def)

lemma fence_contract_lagging_gpu: "fence_contract lagging_gpu"
proof -
  have "completed_at_wait (h @ [SetEventOnCompletion v, WaitForSingleObject]) 0 0 = last_signal h 0"
    for h v
    using completed_at_wait_append [of "h @ [SetEventOnCompletion v]" 0 0]
    by (simp add: last_signal_append)
  then show ?thesis
    by (simp add: fence_contract_def lagging_gpu_def armed_value_append last_signal_append)
qed

lemma flush_lagging_gpu:
  "\<exists>r0 s0 r s'. DirectX_initialise lagging_gpu (DirectX_new 0) = Some (r0, s0)
      \<and> is_successfull r0
      \<and> completed_value lagging_gpu (calls s0 @ [Signal 1, GetCompletedValue]) = 0
      \<and> flushCommandQueue lagging_gpu s0 = Some (r, s') \<and> is_successfull r
      \<and> mCurrentFence s' = 1
      \<and> calls s' = calls s0 @ [Signal 1, GetCompletedValue, CreateEventEx, SetEventOnCompletion 1,
                                WaitForSingleObject, CloseHandle]
      \<and> completed_value lagging_gpu (butlast (calls s')) = 1"
  by (simp add: directx_defs lagging_gpu_def armed_value_def)

lemma onResize_one_gpu:
  "\<exists>s1 r s2. DirectX_run [(one_gpu, Op_initialise), (one_gpu, Op_render)] (DirectX_new 0) = Some s1
      \<and> mCurrBackBuffer s1 = 1 \<and> mCurrentFence s1 = 1
      \<and> DirectX_onResize one_gpu s1 = Some (r, s2) \<and> is_successfull r
      \<and> mCurrBackBuffer s2 = 0 \<and> mCurrentFence s2 = 3"
  by (simp add: directx_defs run_defs last_signal_append)

lemma flush_one_gpu:
  "mCommandQueue s \<Longrightarrow> mFence s \<Longrightarrow>
   flushCommandQueue one_gpu s =
     Some (mkResult True SSUCCESS ''Successfully flushed the command queue.'',
           s\<lparr>mCurrentFence := mCurrentFence s + 1,
             calls := calls s @ [Signal (mCurrentFence s + 1), GetCompletedValue]\<rparr>)"
  by (simp add: flushCommandQueue_def native_def deref_def Let_def one_gpu_def FAILED_def S_OK_def
        last_signal_append)

lemma render_one_gpu:
  assumes "ready s"
  shows "\<exists>r s'. DirectX_render one_gpu s = Some (r, s') \<and> is_successfull r \<and> ready s'
           \<and> mCurrentFence s' = mCurrentFence s + 1"
proof -
  show ?thesis
    using assms
    apply (simp add: DirectX_render_def ready_def DepthStencilView_def CurrentBackBuffer_def
        CurrentBackBufferView_def c_rem_def SwapChainBufferCount_def native_def deref_def Let_def
        flush_one_gpu mkResult_def)
    apply (simp add: one_gpu_def FAILED_def S_OK_def)
    done
qed

lemma renders_one_gpu:
  "ready s \<Longrightarrow>
   \<exists>s'. DirectX_run (replicate n (one_gpu, Op_render)) s = Some s' \<and> ready s'
      \<and> mCurrentFence s' = mCurrentFence s + of_nat n"
proof (induction n arbitrary: s)
  case 0
  then show ?case by simp
next
  case (Suc n)
  from render_one_gpu [OF Suc.prems] obtain r s1 where
    r: "DirectX_render one_gpu s = Some (r, s1)" "ready s1" "mCurrentFence s1 = mCurrentFence s + 1"
    by blast
  from Suc.IH [OF r(2)] obtain s' where
    s': "DirectX_run (replicate n (one_gpu, Op_render)) s1 = Some s'" "ready s'"
      "mCurrentFence s' = mCurrentFence s1 + of_nat n"
    by blast
  from r s' show ?case by simp
qed

lemma initialise_one_gpu_ready:
  "\<exists>r s. DirectX_initialise one_gpu (DirectX_new 0) = Some (r, s) \<and> ready s \<and> mCurrentFence s = 0"
  by (simp add: directx_defs ready_def)

lemma run_one_gpu:
  "\<exists>s'. DirectX_run [(one_gpu, Op_initialise), (one_gpu, Op_onResize), (one_gpu, Op_render)]
      (DirectX_new 0) = Some s' \<and> mCurrentFence s' = 3 \<and> mCurrBackBuffer s' = 1 \<and> ready s'"
  by (simp add: directx_defs run_defs ready_def last_signal_append)

section \<open>Error checking in render (C2)\<close>

lemma hresult_of_failing:
  "hresult_of (failing c) h c' = (if c' = c then E_FAIL else hresult_of one_gpu h c')"
  by (simp add: failing_def)

lemma flush_signal_fails:
  "mCommandQueue s \<Longrightarrow> v = mCurrentFence s + 1 \<Longrightarrow>
   flushCommandQueue (failing (Signal v)) s =
     Some (mkResult False FAIL ''Failed to signal the command queue.'',
           s\<lparr>mCurrentFence := mCurrentFence s + 1,
             calls := calls s @ [Signal (mCurrentFence s + 1)]\<rparr>)"
  by (simp add: flushCommandQueue_def native_def deref_def Let_def hresult_of_failing FAILED_def E_FAIL_def)

lemma render_signal_fails:
  assumes "ready s"
  shows "\<exists>s'. DirectX_render (failing (Signal (mCurrentFence s + 1))) s =
           Some (mkResult True SSUCCESS ''Successfully rendered frame.'', s')
         \<and> last (calls s') = Signal (mCurrentFence s + 1)
         \<and> FAILED (hresult_of (failing (Signal (mCurrentFence s + 1))) (butlast (calls s')) (last (calls s')))"
  using assms
  by (simp add: DirectX_render_def ready_def DepthStencilView_def CurrentBackBuffer_def
        CurrentBackBufferView_def c_rem_def SwapChainBufferCount_def native_def deref_def Let_def
        hresult_of_failing one_gpu_def FAILED_def S_OK_def E_FAIL_def flush_signal_fails)

text \<open>
  C2. \<open>render\<close> does not check its final flush. On an initialised instance, with a
  driver whose \<open>Signal\<close> fails, \<open>render\<close> returns the successful result "Successfully
  rendered frame." although its last native call is that failed \<open>Signal\<close>;
  \<open>flushCommandQueue\<close> itself, called on the same instance, returns the unsuccessful
  result that \<open>render\<close> drops. \<open>onResize\<close> returns the result of its flushes.
\<close>

theorem render_ignores_failed_flush:
  "(DirectX_initialise one_gpu (DirectX_new 0) \<bind>
      (\<lambda>(r0, s0). DirectX_render (failing (Signal 1)) s0 \<bind>
         (\<lambda>(r, s1). Some (is_successfull r0, r, last (calls s1),
                 FAILED (hresult_of (failing (Signal 1)) (butlast (calls s1)) (last (calls s1)))))))
     = Some (True, mkResult True SSUCCESS ''Successfully rendered frame.'', Signal 1, True)
   \<and> (DirectX_initialise one_gpu (DirectX_new 0) \<bind>
        (\<lambda>(r0, s0). map_option fst (flushCommandQueue (failing (Signal 1)) s0)))
     = Some (mkResult False FAIL ''Failed to signal the command queue.'')"
proof -
  obtain r0 s0 where i: "DirectX_initialise one_gpu (DirectX_new 0) = Some (r0, s0)"
    and ok: "is_successfull r0" and s0: "ready s0" "mCurrentFence s0 = 0"
    by (simp add: directx_defs ready_def)
  from render_signal_fails [OF s0(1)] s0(2) obtain s1 where
    r: "DirectX_render (failing (Signal 1)) s0 =
           Some (mkResult True SSUCCESS ''Successfully rendered frame.'', s1)"
      "last (calls s1) = Signal 1"
      "FAILED (hresult_of (failing (Signal 1)) (butlast (calls s1)) (last (calls s1)))"
    by auto
  have q: "mCommandQueue s0" using s0(1) by (simp add: ready_def)
  from i ok r flush_signal_fails [OF q, of 1] s0(2) show ?thesis by simp
qed

section \<open>The facade\<close>

lemma assign_API_Some: "assign_API drv api t = Some t' \<Longrightarrow> t' = t\<lparr>m_API := Some api\<rparr>"
  by (auto simp: assign_API_def split: option.splits bind_splits)

lemma loadConfig_lines_result:
  "fst (loadConfig_lines ls config) = Some r \<Longrightarrow> wf_result r \<and> \<not> is_successfull r"
  by (induction ls arbitrary: config)
     (auto simp: Let_def mkResult_def wf_result_def split: if_splits)

lemma loadConfig_wf: "wf_result (fst (loadConfig fconfig config))"
proof (cases "lines_of fconfig")
  case None
  then show ?thesis by (simp add: loadConfig_def Let_def mkResult_def wf_result_def)
next
  case (Some ls)
  show ?thesis
  proof (cases "loadConfig_lines ls config")
    case (Pair ro c)
    with Some loadConfig_lines_result [of ls config] show ?thesis
      by (cases ro) (auto simp: loadConfig_def mkResult_def wf_result_def)
  qed
qed

lemma SyrenRender_initialise_result:
  "SyrenRender_initialise fconfig drv h t = Some (r, t') \<Longrightarrow>
     \<exists>d. DirectX_initialise drv (DirectX_new h) = Some (r, d) \<and> m_API t' = Some d"
  by (auto simp: SyrenRender_initialise_def select_api_def Let_def dest!: assign_API_Some
        split: prod.splits if_splits bind_splits)

lemma SyrenRender_initialise_wf:
  "SyrenRender_initialise fconfig drv h t = Some (r, t') \<Longrightarrow> wf_result r"
  by (auto dest!: SyrenRender_initialise_result DirectX_initialise_frame)

lemma SyrenRender_onResize_wf:
  "SyrenRender_onResize drv t = Some (r, t') \<Longrightarrow> wf_result r"
  by (auto simp: SyrenRender_onResize_def Let_def mkResult_def wf_result_def
        dest!: DirectX_onResize_frame split: bind_splits if_splits)

lemma SyrenRender_draw_wf:
  "SyrenRender_draw drv t = Some (r, t') \<Longrightarrow> wf_result r"
  by (auto simp: SyrenRender_draw_def dest!: DirectX_render_frame split: bind_splits)

lemma SyrenRender_getAdapters_wf:
  "SyrenRender_getAdapters drv l t = Some (r, l', t') \<Longrightarrow> wf_result r"
  by (auto simp: SyrenRender_getAdapters_def mkResult_def wf_result_def
        dest!: DirectX_getAdapters_frame split: bind_splits if_splits)

lemma SyrenRender_getOutputs_wf:
  "SyrenRender_getOutputs drv i l t = Some (r, l', t') \<Longrightarrow> wf_result r"
  by (auto simp: SyrenRender_getOutputs_def mkResult_def wf_result_def
        dest!: DirectX_getOutputs_frame split: bind_splits if_splits)

lemma SyrenRender_getDisplayModes_wf:
  "SyrenRender_getDisplayModes drv a b l t = Some (r, l', t') \<Longrightarrow> wf_result r"
  by (auto simp: SyrenRender_getDisplayModes_def mkResult_def wf_result_def
        dest!: DirectX_getDisplayModes_frame split: bind_splits if_splits)

subsection \<open>Backend selection (C3)\<close>

text \<open>
  C3. For every value of the API enumeration and every window handle \<open>select_api\<close>
  returns a DirectX instance on that window, and whenever \<open>SyrenRender::initialise\<close>
  returns, the backend it holds is that DirectX instance after its \<open>initialise\<close>,
  whatever the configuration file names.
\<close>

theorem select_api_always_DirectX:
  "select_api p_api phMainWnd = DirectX_new phMainWnd \<and>
   (\<forall>r t'. SyrenRender_initialise fconfig drv phMainWnd t = Some (r, t') \<longrightarrow>
      (\<exists>d. DirectX_initialise drv (DirectX_new phMainWnd) = Some (r, d) \<and> m_API t' = Some d))"
  by (auto simp: SyrenRender_initialise_def select_api_def Let_def dest!: assign_API_Some
        split: prod.splits if_splits bind_splits)

text \<open>
  A configuration that asks for Vulkan: the configured value is \<open>VULKAN\<close> and the
  backend is the DirectX instance on window 7.
\<close>

theorem select_api_always_DirectX_witness:
  "select_api VULKAN 7 = DirectX_new 7 \<and>
   map_option (\<lambda>(r, t). (is_successfull r, GraphicsAPI (m_config t), map_option mhMainWnd (m_API t)))
     (SyrenRender_initialise (cfg_lines [''api: vulkan'']) one_gpu 7 SyrenRender_new) =
   Some (True, VULKAN, Some 7)"
  using select_api_always_DirectX [of VULKAN 7 "cfg_lines [''api: vulkan'']" one_gpu SyrenRender_new]
  by (simp add: facade_defs string_defs directx_defs)

subsection \<open>The configuration file (C4)\<close>

lemma final_api_Nil: "final_api [] e = e"
  by (simp add: final_api_def)

lemma final_api_Cons:
  "final_api (l # ls) e = (if is_api_line l then final_api ls (api_of (api_value l)) else final_api ls e)"
  by (cases "filter is_api_line ls") (simp_all add: final_api_def)

lemma api_of_recognised: "recognised v \<Longrightarrow> api_of v \<noteq> NONE"
  by (auto simp: recognised_def api_of_def)

lemma final_api_NONE:
  "list_all good_line ls \<Longrightarrow>
     (final_api ls e = NONE) = ((\<forall>l\<in>set ls. \<not> is_api_line l) \<and> e = NONE)"
proof (induction ls arbitrary: e)
  case Nil
  then show ?case by (simp add: final_api_Nil)
next
  case (Cons l ls)
  show ?case
  proof (cases "is_api_line l")
    case False
    with Cons show ?thesis by (simp add: final_api_Cons)
  next
    case True
    with Cons.prems have "recognised (api_value l)" by (simp add: good_line_def)
    then have "api_of (api_value l) \<noteq> NONE" by (rule api_of_recognised)
    with True Cons show ?thesis by (simp add: final_api_Cons)
  qed
qed

lemma loadConfig_lines_char:
  "fst (loadConfig_lines ls config) =
     (if list_all good_line ls then None
      else Some (mkResult False FAIL ''invalid graphics API entry in render.config.''))
   \<and> (list_all good_line ls \<longrightarrow>
        GraphicsAPI (snd (loadConfig_lines ls config)) = final_api ls (GraphicsAPI config))"
proof (induction ls arbitrary: config)
  case Nil
  then show ?case by (simp add: final_api_Nil)
next
  case (Cons l ls)
  show ?case
  proof (cases "is_api_line l")
    case False
    with Cons [of config] show ?thesis
      by (simp add: final_api_Cons good_line_def is_api_line_def)
  next
    case True
    note api = this
    show ?thesis
    proof (cases "recognised (api_value l)")
      case False
      with api show ?thesis
        by (simp add: good_line_def is_api_line_def recognised_def api_value_def Let_def)
    next
      case True
      with api Cons [of "config\<lparr>GraphicsAPI := api_of (api_value l)\<rparr>"] show ?thesis
        by (auto simp: good_line_def is_api_line_def recognised_def api_value_def api_of_def
              final_api_Cons Let_def)
    qed
  qed
qed

text \<open>
  C4, as the code has it. The result is \<open>FAIL\<close> exactly when the file does not open or
  some "api" line carries a value that is not recognised. It is \<open>WSUCCESS\<close> exactly
  when the file opens, has no "api" line and \<open>config.GraphicsAPI\<close> is \<open>NONE\<close> on
  entry, and it is then left \<open>NONE\<close>. It is \<open>SSUCCESS\<close> exactly when the file opens,
  every "api" line carries a recognised value, and there is such a line or
  \<open>config.GraphicsAPI\<close> is not \<open>NONE\<close> on entry; \<open>config.GraphicsAPI\<close> is then the
  enumerator of the last "api" line, or its value on entry when there is none.
\<close>

theorem loadConfig_classifies:
  "loadConfig fconfig config = (r, config') \<Longrightarrow>
     (is_successfull r \<longleftrightarrow> result r \<noteq> FAIL)
   \<and> (result r = FAIL \<longleftrightarrow>
        lines_of fconfig = None
        \<or> (\<exists>ls. lines_of fconfig = Some ls
              \<and> (\<exists>l\<in>set ls. is_api_line l \<and> \<not> recognised (api_value l))))
   \<and> (result r = WSUCCESS \<longleftrightarrow>
        (\<exists>ls. lines_of fconfig = Some ls \<and> (\<forall>l\<in>set ls. \<not> is_api_line l)
              \<and> GraphicsAPI config = NONE))
   \<and> (result r = WSUCCESS \<longrightarrow> GraphicsAPI config' = NONE)
   \<and> (result r = SSUCCESS \<longleftrightarrow>
        (\<exists>ls. lines_of fconfig = Some ls
              \<and> (\<forall>l\<in>set ls. is_api_line l \<longrightarrow> recognised (api_value l))
              \<and> ((\<exists>l\<in>set ls. is_api_line l) \<or> GraphicsAPI config \<noteq> NONE)))
   \<and> (\<forall>ls. result r = SSUCCESS \<and> lines_of fconfig = Some ls \<longrightarrow>
          GraphicsAPI config' = final_api ls (GraphicsAPI config))"
proof (cases "lines_of fconfig")
  case None
  assume "loadConfig fconfig config = (r, config')"
  with None show ?thesis
    by (auto simp: loadConfig_def Let_def mkResult_def)
next
  case (Some ls)
  assume lc: "loadConfig fconfig config = (r, config')"
  have good: "list_all good_line ls = (\<forall>l\<in>set ls. is_api_line l \<longrightarrow> recognised (api_value l))"
    by (simp add: list_all_iff good_line_def)
  obtain ro c where ll: "loadConfig_lines ls config = (ro, c)"
    by (cases "loadConfig_lines ls config")
  from loadConfig_lines_char [of ls config] ll
  have ro: "ro = (if list_all good_line ls then None
      else Some (mkResult False FAIL ''invalid graphics API entry in render.config.''))"
    and c: "list_all good_line ls \<Longrightarrow> GraphicsAPI c = final_api ls (GraphicsAPI config)"
    by simp_all
  show ?thesis
  proof (cases "list_all good_line ls")
    case False
    with ro have "ro = Some (mkResult False FAIL ''invalid graphics API entry in render.config.'')"
      by simp
    with lc Some ll have r: "r = mkResult False FAIL ''invalid graphics API entry in render.config.''"
      by (simp add: loadConfig_def)
    from False obtain l where l: "l \<in> set ls" "is_api_line l" "\<not> recognised (api_value l)"
      by (auto simp: good)
    have "result r = FAIL" "\<not> is_successfull r"
      using r by (simp_all add: mkResult_def)
    with l Some show ?thesis by auto
  next
    case True
    note fin = final_api_NONE [OF True, of "GraphicsAPI config"]
    from True lc Some ll ro have cc: "config' = c"
      and r: "r = (if GraphicsAPI c = NONE
                 then mkResult True WSUCCESS ''missing graphics API entry in render.config.''
                 else mkResult True SSUCCESS ''config file loaded successfully.'')"
      by (auto simp: loadConfig_def split: if_splits)
    from c [OF True] have cf: "GraphicsAPI c = final_api ls (GraphicsAPI config)" .
    show ?thesis
    proof (cases "GraphicsAPI c = NONE")
      case True
      with r cc cf fin Some \<open>list_all good_line ls\<close> show ?thesis
        by (auto simp: mkResult_def good)
    next
      case False
      with r cc cf fin Some \<open>list_all good_line ls\<close> show ?thesis
        by (auto simp: mkResult_def good)
    qed
  qed
qed

text \<open>
  A file with one "api" line, read into a fresh configuration.
\<close>

theorem loadConfig_classifies_witness:
  "\<exists>r c. loadConfig (cfg_lines [''width: 800'', ''api: opengl'']) \<lparr>GraphicsAPI = NONE\<rparr> = (r, c)
      \<and> is_successfull r \<and> result r = SSUCCESS \<and> GraphicsAPI c = OPENGL
      \<and> final_api [''width: 800'', ''api: opengl''] NONE = OPENGL"
proof -
  have ev: "loadConfig (cfg_lines [''width: 800'', ''api: opengl'']) \<lparr>GraphicsAPI = NONE\<rparr> =
      (mkResult True SSUCCESS ''config file loaded successfully.'', \<lparr>GraphicsAPI = OPENGL\<rparr>)"
    by (simp add: facade_defs string_defs)
  have l: "lines_of (cfg_lines [''width: 800'', ''api: opengl'']) = Some [''width: 800'', ''api: opengl'']"
    by (simp add: cfg_lines_def)
  have s: "result (mkResult True SSUCCESS ''config file loaded successfully.'') = SSUCCESS"
    by (simp add: mkResult_def)
  from loadConfig_classifies [OF ev] l s
  have "GraphicsAPI \<lparr>GraphicsAPI = OPENGL\<rparr> = final_api [''width: 800'', ''api: opengl''] (GraphicsAPI \<lparr>GraphicsAPI = NONE\<rparr>)"
    by blast
  with ev show ?thesis by (simp add: mkResult_def)
qed

text \<open>
  C4 as stated fails: a file that opens and has no "api" line gives \<open>SSUCCESS\<close>, not
  \<open>WSUCCESS\<close>, when \<open>config.GraphicsAPI\<close> is not \<open>NONE\<close> on entry. A renderer is in that
  state after a first \<open>initialise\<close>, which sets \<open>m_config.GraphicsAPI\<close> to
  \<open>DIRECTX\<close> on its fallback path.
\<close>

theorem loadConfig_stale_api_counterexample:
  "loadConfig (cfg_lines [''width: 800'']) \<lparr>GraphicsAPI = DIRECTX\<rparr> =
     (mkResult True SSUCCESS ''config file loaded successfully.'', \<lparr>GraphicsAPI = DIRECTX\<rparr>)
   \<and> list_all (\<lambda>l. find_str l ''api'' = None) [''width: 800'']
   \<and> (SyrenRender_initialise (cfg_lines [''width: 800'']) one_gpu 0 SyrenRender_new \<bind>
        (\<lambda>(r, t). Some (result r, m_config t, loadConfig (cfg_lines [''width: 800'']) (m_config t)))) =
      Some (SSUCCESS, \<lparr>GraphicsAPI = DIRECTX\<rparr>,
            mkResult True SSUCCESS ''config file loaded successfully.'', \<lparr>GraphicsAPI = DIRECTX\<rparr>)"
  by (simp add: facade_defs string_defs directx_defs)

section \<open>The fence target (C5)\<close>

text \<open>
  C5, as the code has it. A \<open>flushCommandQueue\<close> that returns has added one to
  \<open>mCurrentFence\<close> in 64-bit arithmetic (one more than before, unless it was the
  largest value). When its result is successful, either its two native calls were the
  \<open>Signal\<close> of the new \<open>mCurrentFence\<close> and a \<open>GetCompletedValue\<close> that read a
  value that had reached it, or that read was below it and the function armed an event
  at \<open>mCurrentFence\<close>, waited for it without timeout, and the wait returned; so, on a
  driver that keeps \<open>fence_contract\<close>, the fence's completed value has reached
  \<open>mCurrentFence\<close> at some point of a successful call. Every public operation adds at
  most two, so over a sequence of operations that cannot pass the largest 64-bit value
  \<open>mCurrentFence\<close> does not decrease.
\<close>

theorem fence_target_advances:
  "(\<forall>r s'. flushCommandQueue drv s = Some (r, s') \<longrightarrow>
       mCurrentFence s' = mCurrentFence s + 1
       \<and> (unat (mCurrentFence s) < 2 ^ 64 - 1 \<longrightarrow> unat (mCurrentFence s') = unat (mCurrentFence s) + 1)
       \<and> (is_successfull r \<longrightarrow>
            (calls s' = calls s @ [Signal (mCurrentFence s'), GetCompletedValue]
               \<and> mCurrentFence s' \<le> completed_value drv (calls s'))
            \<or> (calls s' = calls s @ [Signal (mCurrentFence s'), GetCompletedValue, CreateEventEx,
                                 SetEventOnCompletion (mCurrentFence s'), WaitForSingleObject, CloseHandle]
               \<and> completed_value drv (calls s @ [Signal (mCurrentFence s'), GetCompletedValue])
                   < mCurrentFence s'
               \<and> wait_returns drv (butlast (calls s'))))
       \<and> (is_successfull r \<and> fence_contract drv \<longrightarrow>
            (\<exists>h. prefix (calls s) h \<and> prefix h (calls s') \<and> mCurrentFence s' \<le> completed_value drv h)))
   \<and> (\<forall>r s'. DirectX_call drv op s = Some (r, s') \<longrightarrow>
         (\<exists>k\<le>2. mCurrentFence s' = mCurrentFence s + of_nat k))
   \<and> (\<forall>s'. DirectX_run ops s = Some s' \<and> unat (mCurrentFence s) + 2 * length ops < 2 ^ 64 \<longrightarrow>
         mCurrentFence s \<le> mCurrentFence s')"
proof (intro conjI allI impI)
  fix r s'
  assume f: "flushCommandQueue drv s = Some (r, s')"
  then show inc: "mCurrentFence s' = mCurrentFence s + 1"
    by (simp add: flushCommandQueue_frame)
  {
    assume "unat (mCurrentFence s) < 2 ^ 64 - 1"
    then have "unat (mCurrentFence s) + unat (1 :: 64 word) < 2 ^ LENGTH(64)"
      by simp
    then have "unat (mCurrentFence s + 1) = unat (mCurrentFence s) + unat (1 :: 64 word)"
      by (simp only: unat_add_lem)
    with inc show "unat (mCurrentFence s') = unat (mCurrentFence s) + 1" by simp
  }
  {
    assume "is_successfull r"
    from flushCommandQueue_success [OF f this]
    show "(calls s' = calls s @ [Signal (mCurrentFence s'), GetCompletedValue]
               \<and> mCurrentFence s' \<le> completed_value drv (calls s'))
            \<or> (calls s' = calls s @ [Signal (mCurrentFence s'), GetCompletedValue, CreateEventEx,
                                 SetEventOnCompletion (mCurrentFence s'), WaitForSingleObject, CloseHandle]
               \<and> completed_value drv (calls s @ [Signal (mCurrentFence s'), GetCompletedValue])
                   < mCurrentFence s'
               \<and> wait_returns drv (butlast (calls s')))"
      by blast
  }
  {
    assume "is_successfull r \<and> fence_contract drv"
    then have "is_successfull r" and "fence_contract drv"
      by simp_all
    with f show "\<exists>h. prefix (calls s) h \<and> prefix h (calls s') \<and> mCurrentFence s' \<le> completed_value drv h"
      by (rule flushCommandQueue_reached)
  }
next
  fix r s'
  assume "DirectX_call drv op s = Some (r, s')"
  then show "\<exists>k\<le>2. mCurrentFence s' = mCurrentFence s + of_nat k"
    using DirectX_call_frame by blast
next
  fix s'
  assume a: "DirectX_run ops s = Some s' \<and> unat (mCurrentFence s) + 2 * length ops < 2 ^ 64"
  with DirectX_run_frame [of ops s s'] obtain k where
    k: "k \<le> 2 * length ops" "mCurrentFence s' = mCurrentFence s + of_nat k"
    by blast
  from a k(1) have "mCurrentFence s \<le> mCurrentFence s + of_nat k"
    by (intro fence_no_wrap [of _ "2 * length ops"]) simp_all
  with k(2) show "mCurrentFence s \<le> mCurrentFence s'" by simp
qed

text \<open>
  On \<open>lagging_gpu\<close> the first flush after \<open>initialise\<close> reads the completed value 0,
  below the new target 1, so it arms the event, waits and succeeds; the machine keeps
  the contract and the fence has reached 1 when the wait returns. On \<open>one_gpu\<close>,
  initialise, resize and render make three flushes.
\<close>

theorem fence_target_advances_witness:
  "\<exists>r0 s0 r s1 s2.
      DirectX_initialise lagging_gpu (DirectX_new 0) = Some (r0, s0) \<and> is_successfull r0
      \<and> completed_value lagging_gpu (calls s0 @ [Signal 1, GetCompletedValue]) = 0
      \<and> flushCommandQueue lagging_gpu s0 = Some (r, s1) \<and> is_successfull r
      \<and> mCurrentFence s1 = 1
      \<and> calls s1 = calls s0 @ [Signal 1, GetCompletedValue, CreateEventEx, SetEventOnCompletion 1,
                                WaitForSingleObject, CloseHandle]
      \<and> wait_returns lagging_gpu (butlast (calls s1))
      \<and> fence_contract lagging_gpu
      \<and> (\<exists>h. prefix (calls s0) h \<and> prefix h (calls s1) \<and> 1 \<le> completed_value lagging_gpu h)
      \<and> completed_value lagging_gpu (butlast (calls s1)) = 1
      \<and> DirectX_run [(one_gpu, Op_initialise), (one_gpu, Op_onResize), (one_gpu, Op_render)]
            (DirectX_new 0) = Some s2
      \<and> mCurrentFence s2 = 3
      \<and> mCurrentFence (DirectX_new 0) \<le> mCurrentFence s2"
proof -
  from flush_lagging_gpu obtain r0 s0 r s1 where
    l: "DirectX_initialise lagging_gpu (DirectX_new 0) = Some (r0, s0)" "is_successfull r0"
      "completed_value lagging_gpu (calls s0 @ [Signal 1, GetCompletedValue]) = 0"
      "flushCommandQueue lagging_gpu s0 = Some (r, s1)" "is_successfull r"
      "mCurrentFence s1 = 1"
      "calls s1 = calls s0 @ [Signal 1, GetCompletedValue, CreateEventEx, SetEventOnCompletion 1,
                                WaitForSingleObject, CloseHandle]"
      "completed_value lagging_gpu (butlast (calls s1)) = 1"
    by blast
  note t = fence_target_advances [of lagging_gpu s0 Op_render "[]"]
  from t l(4,5) l(7)
  have w: "wait_returns lagging_gpu (butlast (calls s1))"
    by auto
  from t l(4,5) fence_contract_lagging_gpu
  have "\<exists>h. prefix (calls s0) h \<and> prefix h (calls s1) \<and> mCurrentFence s1 \<le> completed_value lagging_gpu h"
    by blast
  with l(6)
  have reached: "\<exists>h. prefix (calls s0) h \<and> prefix h (calls s1) \<and> 1 \<le> completed_value lagging_gpu h"
    by simp
  from run_one_gpu obtain s2 where
    s2: "DirectX_run [(one_gpu, Op_initialise), (one_gpu, Op_onResize), (one_gpu, Op_render)]
      (DirectX_new 0) = Some s2" "mCurrentFence s2 = 3"
    by blast
  have "unat (mCurrentFence (DirectX_new 0))
      + 2 * length [(one_gpu, Op_initialise), (one_gpu, Op_onResize), (one_gpu, Op_render)] < 2 ^ 64"
    by (simp add: DirectX_new_def)
  with s2 fence_target_advances
    [of one_gpu "DirectX_new 0" Op_initialise
        "[(one_gpu, Op_initialise), (one_gpu, Op_onResize), (one_gpu, Op_render)]"]
  have "mCurrentFence (DirectX_new 0) \<le> mCurrentFence s2" by blast
  with l w reached s2 fence_contract_lagging_gpu show ?thesis by blast
qed

text \<open>
  C5 as stated fails where the counter wraps: after \<open>2^64 - 1\<close> renders on the example
  machine \<open>mCurrentFence\<close> is the largest 64-bit value, and the next render takes it
  back to 0.
\<close>

theorem fence_wraps_counterexample:
  "map_option mCurrentFence
     (DirectX_run ((one_gpu, Op_initialise) # replicate (2 ^ 64 - 1) (one_gpu, Op_render)) (DirectX_new 0))
     = Some 18446744073709551615
   \<and> map_option mCurrentFence
     (DirectX_run ((one_gpu, Op_initialise) # replicate (2 ^ 64) (one_gpu, Op_render)) (DirectX_new 0))
     = Some 0
   \<and> (0 :: 64 word) < 18446744073709551615"
proof -
  from initialise_one_gpu_ready obtain r s where
    i: "DirectX_initialise one_gpu (DirectX_new 0) = Some (r, s)" "ready s" "mCurrentFence s = 0"
    by blast
  from renders_one_gpu [OF i(2), of "2 ^ 64 - 1"] obtain s1 where
    s1: "DirectX_run (replicate (2 ^ 64 - 1) (one_gpu, Op_render)) s = Some s1"
      "mCurrentFence s1 = mCurrentFence s + of_nat (2 ^ 64 - 1)"
    by blast
  from renders_one_gpu [OF i(2), of "2 ^ 64"] obtain s2 where
    s2: "DirectX_run (replicate (2 ^ 64) (one_gpu, Op_render)) s = Some s2"
      "mCurrentFence s2 = mCurrentFence s + of_nat (2 ^ 64)"
    by blast
  have a: "(of_nat (2 ^ 64 - 1) :: 64 word) = 18446744073709551615"
    by simp
  have b: "(of_nat (2 ^ 64) :: 64 word) = 0"
    by simp
  have c: "(0 :: 64 word) < 18446744073709551615" by simp
  from i s1 s2 a b c show ?thesis by simp
qed

section \<open>The back-buffer index (C6)\<close>

text \<open>
  C6. \<open>SwapChainBufferCount\<close> is 2 and \<open>0 \<le> mCurrBackBuffer < SwapChainBufferCount\<close>
  holds of a new instance and is kept by every public operation, hence by every
  sequence of them; a successful \<open>render\<close> advances \<open>mCurrBackBuffer\<close> by one modulo
  \<open>SwapChainBufferCount\<close> and a successful \<open>onResize\<close> sets it to 0.
\<close>

theorem back_buffer_cycles:
  "SwapChainBufferCount = 2
   \<and> back_buffer_in_range (DirectX_new phMainWnd)
   \<and> (back_buffer_in_range s \<longrightarrow>
        (\<forall>r s'. DirectX_call drv op s = Some (r, s') \<longrightarrow> back_buffer_in_range s'))
   \<and> (back_buffer_in_range s \<longrightarrow>
        (\<forall>s'. DirectX_run ops s = Some s' \<longrightarrow> back_buffer_in_range s'))
   \<and> (\<forall>r s'. back_buffer_in_range s \<and> DirectX_render drv s = Some (r, s') \<and> is_successfull r \<longrightarrow>
          mCurrBackBuffer s' = (mCurrBackBuffer s + 1) mod SwapChainBufferCount)
   \<and> (\<forall>r s'. DirectX_onResize drv s = Some (r, s') \<and> is_successfull r \<longrightarrow> mCurrBackBuffer s' = 0)"
proof (intro conjI allI impI)
  show "SwapChainBufferCount = 2" by (simp add: SwapChainBufferCount_def)
  show "back_buffer_in_range (DirectX_new phMainWnd)"
    by (simp add: back_buffer_in_range_def DirectX_new_def SwapChainBufferCount_def)
next
  fix r s'
  assume "back_buffer_in_range s" and "DirectX_call drv op s = Some (r, s')"
  with DirectX_call_frame [of drv op s r s'] show "back_buffer_in_range s'"
    by (simp add: back_buffer_in_range_def SwapChainBufferCount_def)
next
  fix s'
  assume "back_buffer_in_range s" and "DirectX_run ops s = Some s'"
  with DirectX_run_frame [of ops s s'] show "back_buffer_in_range s'" by simp
next
  fix r s'
  assume "back_buffer_in_range s \<and> DirectX_render drv s = Some (r, s') \<and> is_successfull r"
  with DirectX_render_frame [of drv s r s']
  show "mCurrBackBuffer s' = (mCurrBackBuffer s + 1) mod SwapChainBufferCount"
    by (simp add: SwapChainBufferCount_def)
next
  fix r s'
  assume "DirectX_onResize drv s = Some (r, s') \<and> is_successfull r"
  with DirectX_onResize_frame [of drv s r s'] show "mCurrBackBuffer s' = 0" by simp
qed

text \<open>
  After initialise, resize and one render the index is 1; the next render takes it to 0.
  After initialise and one render the index is 1 as well, and a resize, which succeeds
  there, takes it to 0.
\<close>

theorem back_buffer_cycles_witness:
  "\<exists>s1 r s2 t1 q t2.
      DirectX_run [(one_gpu, Op_initialise), (one_gpu, Op_onResize), (one_gpu, Op_render)]
        (DirectX_new 0) = Some s1 \<and> mCurrBackBuffer s1 = 1
      \<and> DirectX_render one_gpu s1 = Some (r, s2) \<and> is_successfull r \<and> mCurrBackBuffer s2 = 0
      \<and> DirectX_run [(one_gpu, Op_initialise), (one_gpu, Op_render)] (DirectX_new 0) = Some t1
      \<and> mCurrBackBuffer t1 = 1
      \<and> DirectX_onResize one_gpu t1 = Some (q, t2) \<and> is_successfull q \<and> mCurrBackBuffer t2 = 0"
proof -
  from run_one_gpu obtain s1 where
    s1: "DirectX_run [(one_gpu, Op_initialise), (one_gpu, Op_onResize), (one_gpu, Op_render)]
      (DirectX_new 0) = Some s1" "mCurrBackBuffer s1 = 1" "ready s1"
    by blast
  from render_one_gpu [OF s1(3)] obtain r s2 where
    r: "DirectX_render one_gpu s1 = Some (r, s2)" "is_successfull r"
    by blast
  have "back_buffer_in_range s1"
    using s1(2) by (simp add: back_buffer_in_range_def SwapChainBufferCount_def)
  with r back_buffer_cycles [of 0 s1 one_gpu Op_render "[]"]
  have "mCurrBackBuffer s2 = (mCurrBackBuffer s1 + 1) mod SwapChainBufferCount"
    by blast
  with s1(2) have s2: "mCurrBackBuffer s2 = 0"
    by (simp add: SwapChainBufferCount_def)
  from onResize_one_gpu obtain t1 q t2 where
    t1: "DirectX_run [(one_gpu, Op_initialise), (one_gpu, Op_render)] (DirectX_new 0) = Some t1"
      "mCurrBackBuffer t1 = 1"
    and q: "DirectX_onResize one_gpu t1 = Some (q, t2)" "is_successfull q"
    by blast
  from q back_buffer_cycles [of 0 t1 one_gpu Op_onResize "[]"]
  have t2: "mCurrBackBuffer t2 = 0"
    by blast
  from s1(1,2) r s2 t1 q t2 show ?thesis by blast
qed

section \<open>Enumeration through the facade (C7)\<close>

text \<open>
  C7. Before initialisation each of \<open>getAdapters\<close>, \<open>getOutputs\<close> and
  \<open>getDisplayModes\<close> of the facade returns the unsuccessful \<open>FAIL\<close> result with the
  message "Graphics API has not been initialised." and leaves the caller's list (and
  the renderer) as they were; after initialisation each returns what the backend's
  operation of the same name returns.
\<close>

theorem facade_guards_enumeration:
  "(\<not> m_is_initialised t \<longrightarrow>
      SyrenRender_getAdapters drv adapters t =
        Some (mkResult False FAIL ''Graphics API has not been initialised.'', adapters, t)
    \<and> SyrenRender_getOutputs drv index outputs t =
        Some (mkResult False FAIL ''Graphics API has not been initialised.'', outputs, t)
    \<and> SyrenRender_getDisplayModes drv adapterIndex OutputIndex displayModes t =
        Some (mkResult False FAIL ''Graphics API has not been initialised.'', displayModes, t))
   \<and> (m_is_initialised t \<and> m_API t = Some api \<longrightarrow>
      SyrenRender_getAdapters drv adapters t =
        map_option (\<lambda>(r, l, api'). (r, l, t\<lparr>m_API := Some api'\<rparr>)) (DirectX_getAdapters drv adapters api)
    \<and> SyrenRender_getOutputs drv index outputs t =
        map_option (\<lambda>(r, l, api'). (r, l, t\<lparr>m_API := Some api'\<rparr>)) (DirectX_getOutputs drv index outputs api)
    \<and> SyrenRender_getDisplayModes drv adapterIndex OutputIndex displayModes t =
        map_option (\<lambda>(r, l, api'). (r, l, t\<lparr>m_API := Some api'\<rparr>))
          (DirectX_getDisplayModes drv adapterIndex OutputIndex displayModes api))
   \<and> \<not> is_successfull (mkResult False FAIL ''Graphics API has not been initialised.'')
   \<and> result (mkResult False FAIL ''Graphics API has not been initialised.'') = FAIL"
  by (auto simp: SyrenRender_getAdapters_def SyrenRender_getOutputs_def SyrenRender_getDisplayModes_def
        mkResult_def split: bind_splits option.splits)

text \<open>
  The enumeration of the example machine: one adapter, found by the first call.
\<close>

lemma getAdapters_one_gpu:
  "mFactory s \<Longrightarrow> DirectX_getAdapters one_gpu [] s =
     Some (mkResult True SSUCCESS ''Adapters returned.'', [GraphicsAdapter 0 []],
           s\<lparr>calls := calls s @ [EnumAdapterByGpuPreference 0, Adapter_GetDesc, EnumAdapterByGpuPreference 1]\<rparr>)"
  apply (simp add: DirectX_getAdapters_def)
  apply (subst getAdapters_loop.simps)
  apply (simp add: native_out_def native_def deref_def one_gpu_def DXGI_ERROR_NOT_FOUND_def S_OK_def narrow_def)
  apply (subst getAdapters_loop.simps)
  apply (simp add: native_out_def native_def deref_def one_gpu_def DXGI_ERROR_NOT_FOUND_def S_OK_def)
  done

text \<open>
  A fresh renderer is refused; after \<open>initialise\<close> the same call lists the adapter.
\<close>

theorem facade_guards_enumeration_witness:
  "SyrenRender_getAdapters one_gpu [] SyrenRender_new =
      Some (mkResult False FAIL ''Graphics API has not been initialised.'', [], SyrenRender_new)
   \<and> (SyrenRender_initialise cfg_missing one_gpu 7 SyrenRender_new \<bind>
        (\<lambda>(r, t). map_option (\<lambda>(r, l, t'). (is_successfull r, l)) (SyrenRender_getAdapters one_gpu [] t))) =
      Some (True, [GraphicsAdapter 0 []])"
proof -
  have a: "SyrenRender_getAdapters one_gpu [] SyrenRender_new =
      Some (mkResult False FAIL ''Graphics API has not been initialised.'', [], SyrenRender_new)"
    using facade_guards_enumeration [of SyrenRender_new one_gpu "[]"]
    by (simp add: SyrenRender_new_def)
  obtain r t api where init: "SyrenRender_initialise cfg_missing one_gpu 7 SyrenRender_new = Some (r, t)"
    and t: "m_is_initialised t" "m_API t = Some api" "mFactory api"
    by (simp add: facade_defs directx_defs)
  from facade_guards_enumeration [of t one_gpu "[]" _ _ _ _ _ api] t
  have "SyrenRender_getAdapters one_gpu [] t =
        map_option (\<lambda>(r, l, api'). (r, l, t\<lparr>m_API := Some api'\<rparr>)) (DirectX_getAdapters one_gpu [] api)"
    by simp
  with init getAdapters_one_gpu [OF t(3)] a show ?thesis
    by (simp add: mkResult_def)
qed

section \<open>Results (C8)\<close>

text \<open>
  C8. Every result returned by a member function of \<open>DirectX\<close> or of \<open>SyrenRender\<close>
  has \<open>is_successfull\<close> true exactly when \<open>result\<close> is not \<open>FAIL\<close>. Every
  \<open>FunctionResult\<close> the sources construct is constructed in a \<open>return\<close> of one of
  these functions.
\<close>

theorem every_result_well_formed:
  "(\<forall>r s'. initialiseDXGI drv s = Some (r, s') \<longrightarrow> wf_result r)
   \<and> (\<forall>r s'. initialiseD3D12 drv s = Some (r, s') \<longrightarrow> wf_result r)
   \<and> (\<forall>r s'. initialiseFence drv s = Some (r, s') \<longrightarrow> wf_result r)
   \<and> (\<forall>r s'. checkMultisampling drv s = Some (r, s') \<longrightarrow> wf_result r)
   \<and> (\<forall>r s'. initialiseCommandObjects drv s = Some (r, s') \<longrightarrow> wf_result r)
   \<and> (\<forall>r s'. initialiseSwapChain drv rrNumerator rrDenominator s = Some (r, s') \<longrightarrow> wf_result r)
   \<and> (\<forall>r s'. initialiseRtvAndDsvDescriptorHeaps drv s = Some (r, s') \<longrightarrow> wf_result r)
   \<and> (\<forall>r p s'. getAdapter drv index s = Some (r, p, s') \<longrightarrow> wf_result r)
   \<and> (\<forall>r p s'. getOutput drv adapterIndex outputIndex pOutput s = Some (r, p, s') \<longrightarrow> wf_result r)
   \<and> (\<forall>r s'. flushCommandQueue drv s = Some (r, s') \<longrightarrow> wf_result r)
   \<and> (\<forall>r s'. DirectX_initialise drv s = Some (r, s') \<longrightarrow> wf_result r)
   \<and> (\<forall>r s'. DirectX_onResize drv s = Some (r, s') \<longrightarrow> wf_result r)
   \<and> (\<forall>r s'. DirectX_render drv s = Some (r, s') \<longrightarrow> wf_result r)
   \<and> (\<forall>r s'. DirectX_update drv s = Some (r, s') \<longrightarrow> wf_result r)
   \<and> (\<forall>r s'. DirectX_destroy drv s = Some (r, s') \<longrightarrow> wf_result r)
   \<and> (\<forall>r l s'. DirectX_getAdapters drv adapters s = Some (r, l, s') \<longrightarrow> wf_result r)
   \<and> (\<forall>r l s'. DirectX_getOutputs drv index outputs s = Some (r, l, s') \<longrightarrow> wf_result r)
   \<and> (\<forall>r l s'. DirectX_getDisplayModes drv adapterIndex outputIndex displayModes s = Some (r, l, s')
         \<longrightarrow> wf_result r)
   \<and> wf_result (fst (loadConfig fconfig config))
   \<and> (\<forall>r t'. SyrenRender_initialise fconfig drv phMainWnd t = Some (r, t') \<longrightarrow> wf_result r)
   \<and> (\<forall>r t'. SyrenRender_onResize drv t = Some (r, t') \<longrightarrow> wf_result r)
   \<and> (\<forall>r t'. SyrenRender_draw drv t = Some (r, t') \<longrightarrow> wf_result r)
   \<and> (\<forall>r l t'. SyrenRender_getAdapters drv adapters t = Some (r, l, t') \<longrightarrow> wf_result r)
   \<and> (\<forall>r l t'. SyrenRender_getOutputs drv index outputs t = Some (r, l, t') \<longrightarrow> wf_result r)
   \<and> (\<forall>r l t'. SyrenRender_getDisplayModes drv adapterIndex outputIndex displayModes t = Some (r, l, t')
         \<longrightarrow> wf_result r)"
proof (intro conjI allI impI)
  show "wf_result (fst (loadConfig fconfig config))" by (rule loadConfig_wf)
qed (blast dest: initialiseDXGI_frame initialiseD3D12_frame initialiseFence_frame
      checkMultisampling_frame initialiseCommandObjects_frame initialiseSwapChain_frame
      initialiseRtvAndDsvDescriptorHeaps_frame getAdapter_frame getOutput_frame
      flushCommandQueue_frame DirectX_initialise_frame DirectX_onResize_frame DirectX_render_frame
      DirectX_getAdapters_frame DirectX_getOutputs_frame DirectX_getDisplayModes_frame
      SyrenRender_initialise_wf SyrenRender_onResize_wf SyrenRender_draw_wf
      SyrenRender_getAdapters_wf SyrenRender_getOutputs_wf SyrenRender_getDisplayModes_wf
    | simp add: DirectX_update_def DirectX_destroy_def mkResult_def wf_result_def; fail
    | auto simp: DirectX_update_def DirectX_destroy_def mkResult_def wf_result_def)+

text \<open>The results of a successful and of a failed initialisation on the example machines.\<close>

theorem every_result_well_formed_witness:
  "(\<exists>r s'. DirectX_initialise one_gpu (DirectX_new 0) = Some (r, s') \<and> is_successfull r \<and> wf_result r)
   \<and> (\<exists>r s'. DirectX_initialise (failing CreateFence) (DirectX_new 0) = Some (r, s')
         \<and> \<not> is_successfull r \<and> result r = FAIL \<and> wf_result r)"
proof -
  obtain r1 s1 where a: "DirectX_initialise one_gpu (DirectX_new 0) = Some (r1, s1)" "is_successfull r1"
    by (simp add: directx_defs)
  obtain r2 s2 where b: "DirectX_initialise (failing CreateFence) (DirectX_new 0) = Some (r2, s2)"
    "\<not> is_successfull r2" "result r2 = FAIL"
    by (simp add: directx_defs)
  have "\<forall>r s'. DirectX_initialise one_gpu (DirectX_new 0) = Some (r, s') \<longrightarrow> wf_result r"
    using every_result_well_formed
      [where drv = "one_gpu" and s = "DirectX_new 0" and rrNumerator = 60 and rrDenominator = 1
         and index = 0 and adapterIndex = 0 and outputIndex = 0 and pOutput = False
         and adapters = "[]" and outputs = "[]" and displayModes = "[]" and fconfig = cfg_missing
         and config = "\<lparr>GraphicsAPI = NONE\<rparr>" and phMainWnd = 0 and t = SyrenRender_new] by simp
  with a have w1: "wf_result r1" by blast
  have "\<forall>r s'. DirectX_initialise (failing CreateFence) (DirectX_new 0) = Some (r, s') \<longrightarrow> wf_result r"
    using every_result_well_formed
      [where drv = "failing CreateFence" and s = "DirectX_new 0" and rrNumerator = 60 and rrDenominator = 1
         and index = 0 and adapterIndex = 0 and outputIndex = 0 and pOutput = False
         and adapters = "[]" and outputs = "[]" and displayModes = "[]" and fconfig = cfg_missing
         and config = "\<lparr>GraphicsAPI = NONE\<rparr>" and phMainWnd = 0 and t = SyrenRender_new] by simp
  with b have w2: "wf_result r2" by blast
  from a b w1 w2 show ?thesis by blast
qed

section \<open>The initialised flag (C9)\<close>

text \<open>
  C9. Whenever \<open>SyrenRender::initialise\<close> returns, on either path and with either
  outcome of the backend's \<open>initialise\<close>, \<open>m_is_initialised\<close> is true and
  \<open>isInitialised\<close> answers true.
\<close>

theorem initialise_sets_flag:
  "SyrenRender_initialise fconfig drv phMainWnd t = Some (r, t') \<Longrightarrow>
     m_is_initialised t' \<and> isInitialised t'"
  by (auto simp: SyrenRender_initialise_def isInitialised_def Let_def
        split: prod.splits if_splits bind_splits)

text \<open>
  No configuration file and no DXGI factory: \<open>initialise\<close> reports failure and the
  flag is set all the same.
\<close>

theorem initialise_sets_flag_witness:
  "(\<exists>r t'. SyrenRender_initialise cfg_missing (failing CreateDXGIFactory1) 7 SyrenRender_new = Some (r, t')
      \<and> \<not> is_successfull r \<and> m_is_initialised t' \<and> isInitialised t')"
proof -
  have "\<exists>r t'. SyrenRender_initialise cfg_missing (failing CreateDXGIFactory1) 7 SyrenRender_new = Some (r, t')
      \<and> \<not> is_successfull r"
    by (simp add: facade_defs directx_defs)
  then show ?thesis
    using initialise_sets_flag [of cfg_missing "failing CreateDXGIFactory1" 7 SyrenRender_new]
    by blast
qed

section \<open>Display modes (C10)\<close>

text \<open>
  C10. When the output lookup returns an unsuccessful result, \<open>getDisplayModes\<close>
  returns that same result and the caller's list is unchanged.
\<close>

theorem getDisplayModes_atomic_on_lookup_failure:
  "getOutput drv pAdapterIndex pOutputIndex False s = Some (res, output, s1) \<Longrightarrow>
   \<not> is_successfull res \<Longrightarrow>
   DirectX_getDisplayModes drv pAdapterIndex pOutputIndex pDisplayModes s = Some (res, pDisplayModes, s1)"
  by (simp add: DirectX_getDisplayModes_def)

text \<open>
  An adapter index the machine does not have: the lookup fails after one call, the
  result is the lookup's and the list keeps its one element.
\<close>

theorem getDisplayModes_atomic_on_lookup_failure_witness:
  "(DirectX_initialise one_gpu (DirectX_new 0) \<bind>
      (\<lambda>(r, s). map_option (\<lambda>(r, l, s'). (r, l, calls s' = calls s @ [EnumAdapterByGpuPreference 3]))
         (DirectX_getDisplayModes one_gpu 3 0 [DisplayMode 0 640 480 60] s))) =
   Some (mkResult False FAIL ''Could not find adapter at index position 3.'', [DisplayMode 0 640 480 60], True)"
proof -
  obtain r s where init: "DirectX_initialise one_gpu (DirectX_new 0) = Some (r, s)" and f: "mFactory s"
    by (simp add: directx_defs)
  have look: "getOutput one_gpu 3 0 False s =
      Some (mkResult False FAIL ''Could not find adapter at index position 3.'', False,
            s\<lparr>calls := calls s @ [EnumAdapterByGpuPreference 3]\<rparr>)"
    using f by (simp add: getOutput_def getAdapter_def native_out_def deref_def one_gpu_def
        DXGI_ERROR_NOT_FOUND_def S_OK_def string_defs mkResult_def)
  have "\<not> is_successfull (mkResult False FAIL ''Could not find adapter at index position 3.'')"
    by (simp add: mkResult_def)
  from getDisplayModes_atomic_on_lookup_failure [OF look this, of "[DisplayMode 0 640 480 60]"] init
  show ?thesis by simp
qed

end
